theory Spec2Isabelle
  imports Main
begin

section \<open>The guest portal binding (lib/guest-portal-binding.js)\<close>

text \<open>
  The class \<open>GuestPortalBinding\<close> is embedded as a record of its fields together with
  the state of the collaborators it calls: the Atom workspace (panes and their items),
  the destroy observers registered on pane items, the allocation counters of the objects
  it constructs, and the log of every call it makes on a collaborator whose state it does
  not read back (notification manager, emitter, portal, proxies, bindings, the
  \<open>didDispose\<close> callback). Every method takes the world and returns the world it leaves
  behind together with its result; a JavaScript exception is the result \<open>Inl\<close>, with the
  world as the mutations made before the throw left it. An \<open>async\<close> method is run to its
  end, as it runs when its caller awaits it before calling again. The one place where a
  method of the binding is suspended with its own bookkeeping half done, the
  \<open>await this.workspace.open(...)\<close> of \<open>replaceActivePaneItem\<close>, is also given as two
  steps (\<open>replaceActivePaneItemStart\<close>, \<open>replaceActivePaneItemResume\<close>), so that calls
  which overlap there can be run as well.
\<close>

subsection \<open>Objects\<close>

datatype TextBuffer = TextBuffer nat

datatype TextEditor = TextEditor (editorId: nat) (getBuffer: TextBuffer)

type_synonym BufferProxy = nat

text \<open>An editor proxy carries its buffer proxy (\<open>const {bufferProxy} = editorProxy\<close>).\<close>

datatype EditorProxy = EditorProxy (editorProxyId: nat) (bufferProxy: BufferProxy)

record BufferBinding =
  buffer :: TextBuffer

record EditorBinding =
  editor :: TextEditor
  isHost :: bool

text \<open>
  The items a pane can hold: the binding's placeholder (\<open>new EmptyPortalPaneItem()\<close>),
  a text editor, or an item of the guest's own that the binding never creates.
\<close>

datatype paneItem = EmptyPortalPaneItem | EditorItem TextEditor | LocalItem nat

text \<open>A portal answers \<open>getSiteIdentity(siteId)\<close> from its table of site logins.\<close>

datatype Portal = Portal (siteIdentities: "(nat \<times> string) list")

text \<open>
  What \<open>client.joinPortal\<close> can throw, each with its \<open>message\<close>: an
  \<open>Errors.PortalNotFoundError\<close> or any other error. The binding's own code raises
  nothing but the \<open>TypeError\<close> of a method call on \<open>undefined\<close> or \<open>null\<close>.
\<close>

datatype error = PortalNotFoundError string | OtherError string

fun message :: "error \<Rightarrow> string" where
  "message (PortalNotFoundError m) = m"
| "message (OtherError m) = m"

datatype exception = TypeError

record notificationOptions =
  description :: string
  dismissable :: bool

text \<open>The calls on collaborators, logged in the order they are made.\<close>

datatype effect =
    AddInfo string "notificationOptions option"
  | AddError string "notificationOptions option"
  | EmitterEmit string
  | PortalSetDelegate Portal
  | PortalDispose Portal
  | EmitDidDispose
  | ItemDestroy paneItem
  | DisposableDispose nat
  | WorkspaceOpen paneItem
  | PaneAddItem nat paneItem nat
  | PaneRemoveItem nat paneItem
  | NewTextBuffer TextBuffer
  | NewBufferBinding BufferBinding
  | BufferBindingSetBufferProxy BufferBinding BufferProxy
  | BufferProxySetDelegate BufferProxy BufferBinding
  | NewTextEditor TextEditor
  | NewEditorBinding EditorBinding
  | EditorBindingSetEditorProxy EditorBinding EditorProxy
  | EditorProxySetDelegate EditorProxy EditorBinding
  | SetCursorBufferPosition TextEditor nat nat
  | AutoscrollToLastHostSelection EditorBinding

text \<open>
  The fields of the class. \<open>portal\<close> is \<open>None\<close> while it is \<open>undefined\<close> (before
  \<open>initialize\<close>) or \<open>null\<close> (the join returned no portal): a method call on either
  raises a \<open>TypeError\<close>. The two maps are JavaScript \<open>Map\<close>s keyed by the proxy object.
\<close>

record GuestPortalBinding =
  portalId :: string
  portal :: "Portal option"
  activePaneItem :: "paneItem option"
  newActivePaneItem :: "paneItem option"
  activeEditorBinding :: "EditorBinding option"
  emptyPortalItem :: paneItem
  editorBindingsByEditorProxy :: "EditorProxy \<rightharpoonup> EditorBinding"
  bufferBindingsByBufferProxy :: "BufferProxy \<rightharpoonup> BufferBinding"
  activePaneItemDestroySubscription :: "nat option"

record world =
  this :: GuestPortalBinding
  panes :: "paneItem list list"
  activePane :: nat
  destroyObservers :: "(nat \<times> paneItem) list"
  nextDisposable :: nat
  nextTextBuffer :: nat
  nextTextEditor :: nat
  effects :: "effect list"

type_synonym 'a result = "(exception + 'a) \<times> world"

definition addEffect :: "effect \<Rightarrow> world \<Rightarrow> world" where
  "addEffect e w = w\<lparr>effects := effects w @ [e]\<rparr>"

text \<open>
  Sequencing: the statements after a call run in the world the call left, unless the
  call raised, in which case the exception leaves the method with that world.
\<close>

definition andThen :: "'a result \<Rightarrow> ('a \<Rightarrow> world \<Rightarrow> 'b result) \<Rightarrow> 'b result" where
  "andThen r f = (case r of (Inl e, w) \<Rightarrow> (Inl e, w) | (Inr a, w) \<Rightarrow> f a w)"

subsection \<open>The Atom workspace, as the binding uses it\<close>

text \<open>
  A workspace is its panes in order, each the list of its items in order.
  \<open>workspace.paneForItem(item)\<close> is the first pane that holds the item, or \<open>undefined\<close>.
\<close>

fun paneForItem :: "paneItem list list \<Rightarrow> paneItem \<Rightarrow> nat option" where
  "paneForItem [] item = None"
| "paneForItem (p # ps) item =
     (if item \<in> set p then Some 0 else map_option Suc (paneForItem ps item))"

text \<open>
  \<open>pane.getItems().indexOf(item)\<close>. The binding asks for it only in the pane that
  \<open>paneForItem\<close> found for the item, where JavaScript's \<open>-1\<close> does not occur.
\<close>

definition indexOf :: "paneItem list \<Rightarrow> paneItem \<Rightarrow> nat" where
  "indexOf items item = length (takeWhile (\<lambda>i. i \<noteq> item) items)"

text \<open>
  \<open>pane.addItem(item, {index})\<close>: a pane holds an item once, so adding an item it
  already holds changes nothing; otherwise the item is spliced in at the index.
  \<open>pane.removeItem(item)\<close> takes the item out and does not destroy it.
\<close>

definition paneAddItem :: "nat \<Rightarrow> paneItem \<Rightarrow> nat \<Rightarrow> world \<Rightarrow> world" where
  "paneAddItem k item index w =
     (let items = panes w ! k in
      addEffect (PaneAddItem k item index)
        (if item \<in> set items then w
         else w\<lparr>panes := (panes w)[k := take index items @ [item] @ drop index items]\<rparr>))"

definition paneRemoveItem :: "nat \<Rightarrow> paneItem \<Rightarrow> world \<Rightarrow> world" where
  "paneRemoveItem k item w =
     addEffect (PaneRemoveItem k item) (w\<lparr>panes := (panes w)[k := remove1 item (panes w ! k)]\<rparr>)"

text \<open>
  \<open>workspace.open(item)\<close>: an item that is in a pane is activated where it is; any other
  item is added to the active pane (to a pane of its own when the workspace has none).
  The model keeps no active item per pane and adds at the end of the pane.
\<close>

definition workspaceOpen :: "paneItem \<Rightarrow> world \<Rightarrow> world" where
  "workspaceOpen item w =
     addEffect (WorkspaceOpen item)
       (case paneForItem (panes w) item of
          Some k \<Rightarrow> w\<lparr>activePane := k\<rparr>
        | None \<Rightarrow>
            if activePane w < length (panes w)
            then w\<lparr>panes := (panes w)[activePane w := panes w ! activePane w @ [item]]\<rparr>
            else w\<lparr>panes := panes w @ [[item]], activePane := length (panes w)\<rparr>)"

text \<open>
  \<open>item.onDidDestroy(callback)\<close> returns a disposable; the only callback the binding
  registers is \<open>this.leave.bind(this)\<close>, so an observer is the disposable and its item.
  Disposing the disposable takes the observer away.
\<close>

definition onDidDestroy :: "paneItem \<Rightarrow> world \<Rightarrow> nat \<times> world" where
  "onDidDestroy item w =
     (nextDisposable w,
      w\<lparr>destroyObservers := destroyObservers w @ [(nextDisposable w, item)],
        nextDisposable := Suc (nextDisposable w)\<rparr>)"

definition disposableDispose :: "nat \<Rightarrow> world \<Rightarrow> world" where
  "disposableDispose d w =
     addEffect (DisposableDispose d)
       (w\<lparr>destroyObservers := filter (\<lambda>ob. fst ob \<noteq> d) (destroyObservers w)\<rparr>)"

subsection \<open>The methods\<close>

definition constructor :: "string \<Rightarrow> GuestPortalBinding" where
  "constructor pid =
     \<lparr>portalId = pid, portal = None, activePaneItem = None, newActivePaneItem = None,
      activeEditorBinding = None, emptyPortalItem = EmptyPortalPaneItem,
      editorBindingsByEditorProxy = Map.empty, bufferBindingsByBufferProxy = Map.empty,
      activePaneItemDestroySubscription = None\<rparr>"

text \<open>The world right after \<open>new GuestPortalBinding(...)\<close>, in a workspace with the given panes.\<close>

definition newWorld :: "string \<Rightarrow> paneItem list list \<Rightarrow> nat \<Rightarrow> world" where
  "newWorld pid ps act =
     \<lparr>this = constructor pid, panes = ps, activePane = act, destroyObservers = [],
      nextDisposable = 0, nextTextBuffer = 0, nextTextEditor = 0, effects = []\<rparr>"

definition didFailToJoin :: "error \<Rightarrow> world \<Rightarrow> world" where
  "didFailToJoin err w =
     (case err of
        PortalNotFoundError m \<Rightarrow>
          addEffect (AddError ''Portal not found''
            (Some \<lparr>description = ''No portal exists with that ID. Please ask your host to provide you with their current portal ID.'',
                   dismissable = True\<rparr>)) w
      | OtherError m \<Rightarrow>
          addEffect (AddError ''Failed to join portal''
            (Some \<lparr>description = ''Attempting to join portal '' @ portalId (this w) @
                     '' failed with error: <code>'' @ message err @ ''</code>'',
                   dismissable = True\<rparr>)) w)"

text \<open>
  \<open>initialize\<close> awaits \<open>client.joinPortal(portalId)\<close>, which resolves to a portal or to
  \<open>null\<close>, or rejects with an error. The calls on the portal and on the notification
  manager are taken to return.
\<close>

datatype joinOutcome = Resolved "Portal option" | Rejected error

definition initialize :: "joinOutcome \<Rightarrow> world \<Rightarrow> bool result" where
  "initialize joined w =
     (case joined of
        Resolved r \<Rightarrow>
          (let w1 = w\<lparr>this := (this w)\<lparr>portal := r\<rparr>\<rparr> in
           case r of
             None \<Rightarrow> (Inr False, w1)
           | Some p \<Rightarrow> (Inr True, addEffect (PortalSetDelegate p) w1))
      | Rejected err \<Rightarrow> (Inr False, didFailToJoin err w))"

definition leave :: "world \<Rightarrow> unit result" where
  "leave w =
     (case portal (this w) of
        None \<Rightarrow> (Inl TypeError, w)
      | Some p \<Rightarrow> (Inr (), addEffect (PortalDispose p) w))"

text \<open>
  \<open>item.destroy()\<close>: the item leaves its panes and its destroy observers run, once;
  each of them is \<open>leave\<close>, and an exception of an observer is the caller's.
\<close>

fun callLeave :: "nat \<Rightarrow> world \<Rightarrow> unit result" where
  "callLeave 0 w = (Inr (), w)"
| "callLeave (Suc n) w = andThen (leave w) (\<lambda>u. callLeave n)"

definition itemDestroy :: "paneItem \<Rightarrow> world \<Rightarrow> unit result" where
  "itemDestroy item w =
     callLeave (length (filter (\<lambda>ob. snd ob = item) (destroyObservers w)))
       (addEffect (ItemDestroy item)
          (w\<lparr>panes := map (removeAll item) (panes w),
             destroyObservers := filter (\<lambda>ob. snd ob \<noteq> item) (destroyObservers w)\<rparr>))"

text \<open>
  The statement
  \<open>if (this.activePaneItemDestroySubscription) this.activePaneItemDestroySubscription.dispose()\<close>
  of \<open>dispose\<close> and of \<open>replaceActivePaneItem\<close>. The field keeps the disposable.
\<close>

definition disposeDestroySubscription :: "world \<Rightarrow> world" where
  "disposeDestroySubscription w =
     (case activePaneItemDestroySubscription (this w) of
        Some d \<Rightarrow> disposableDispose d w
      | None \<Rightarrow> w)"

definition dispose :: "world \<Rightarrow> unit result" where
  "dispose w =
     (let w1 = disposeDestroySubscription w in
      andThen (case activePaneItem (this w1) of
                 Some item \<Rightarrow> itemDestroy item w1
               | None \<Rightarrow> (Inr (), w1))
        (\<lambda>u w2.
           andThen (itemDestroy (emptyPortalItem (this w2)) w2)
             (\<lambda>u' w3. (Inr (), addEffect EmitDidDispose w3))))"

definition getSiteIdentity :: "Portal \<Rightarrow> nat \<Rightarrow> string option" where
  "getSiteIdentity p siteId = map_of (siteIdentities p) siteId"

text \<open>
  \<open>siteDidJoin\<close> and \<open>siteDidLeave\<close> destructure \<open>login\<close> out of the identity of site 1
  (the host) and of the given site; a missing portal or identity raises.
\<close>

definition siteDidJoin :: "nat \<Rightarrow> world \<Rightarrow> unit result" where
  "siteDidJoin siteId w =
     (case portal (this w) of
        None \<Rightarrow> (Inl TypeError, w)
      | Some p \<Rightarrow>
          (case getSiteIdentity p 1 of
             None \<Rightarrow> (Inl TypeError, w)
           | Some hostLogin \<Rightarrow>
               (case getSiteIdentity p siteId of
                  None \<Rightarrow> (Inl TypeError, w)
                | Some siteLogin \<Rightarrow>
                    (Inr (),
                     addEffect (EmitterEmit ''did-change'')
                       (addEffect
                          (AddInfo (''@'' @ siteLogin @ '' has joined @'' @ hostLogin @ '''s portal'') None)
                          w)))))"

definition siteDidLeave :: "nat \<Rightarrow> world \<Rightarrow> unit result" where
  "siteDidLeave siteId w =
     (case portal (this w) of
        None \<Rightarrow> (Inl TypeError, w)
      | Some p \<Rightarrow>
          (case getSiteIdentity p 1 of
             None \<Rightarrow> (Inl TypeError, w)
           | Some hostLogin \<Rightarrow>
               (case getSiteIdentity p siteId of
                  None \<Rightarrow> (Inl TypeError, w)
                | Some siteLogin \<Rightarrow>
                    (Inr (),
                     addEffect (EmitterEmit ''did-change'')
                       (addEffect
                          (AddInfo (''@'' @ siteLogin @ '' has left @'' @ hostLogin @ '''s portal'') None)
                          w)))))"

definition replaceActivePaneItem :: "paneItem \<Rightarrow> world \<Rightarrow> unit result" where
  "replaceActivePaneItem item w =
     (let w1 = w\<lparr>this := (this w)\<lparr>newActivePaneItem := Some item\<rparr>\<rparr> in
      andThen (case activePaneItem (this w1) of
                 Some old \<Rightarrow>
                   (case paneForItem (panes w1) old of
                      None \<Rightarrow> (Inl TypeError, w1)
                    | Some k \<Rightarrow>
                        (Inr (), paneRemoveItem k old
                                   (paneAddItem k item (indexOf (panes w1 ! k) old) w1)))
               | None \<Rightarrow> (Inr (), workspaceOpen item w1))
        (\<lambda>u w2.
           let w3 = w2\<lparr>this := (this w2)\<lparr>activePaneItem := newActivePaneItem (this w2)\<rparr>\<rparr>;
               w4 = disposeDestroySubscription w3 in
           case activePaneItem (this w4) of
             None \<Rightarrow> (Inl TypeError, w4)
           | Some a \<Rightarrow>
               (let (d, w5) = onDidDestroy a w4;
                    w6 = w5\<lparr>this := (this w5)\<lparr>activePaneItemDestroySubscription := Some d\<rparr>\<rparr>
                in (Inr (), w6\<lparr>this := (this w6)\<lparr>newActivePaneItem := None\<rparr>\<rparr>))))"

text \<open>
  The \<open>else\<close> branch of \<open>setActiveEditorProxy\<close> up to the assignment of
  \<open>this.activeEditorBinding\<close> (lines 61 to 92): the editor binding of the proxy, found
  in the map or built together with what it needs.
\<close>

definition findOrCreateBufferBinding :: "BufferProxy \<Rightarrow> world \<Rightarrow> BufferBinding \<times> world" where
  "findOrCreateBufferBinding bp w =
     (case bufferBindingsByBufferProxy (this w) bp of
        Some bufferBinding \<Rightarrow> (bufferBinding, w)
      | None \<Rightarrow>
          (let buf = TextBuffer (nextTextBuffer w);
               bufferBinding = \<lparr>buffer = buf\<rparr>;
               w1 = w\<lparr>nextTextBuffer := Suc (nextTextBuffer w),
                      effects := effects w @
                        [NewTextBuffer buf, NewBufferBinding bufferBinding,
                         BufferBindingSetBufferProxy bufferBinding bp,
                         BufferProxySetDelegate bp bufferBinding]\<rparr>
           in (bufferBinding,
               w1\<lparr>this := (this w1)\<lparr>bufferBindingsByBufferProxy :=
                     (bufferBindingsByBufferProxy (this w1))(bp \<mapsto> bufferBinding)\<rparr>\<rparr>)))"

definition findOrCreateEditorBinding :: "EditorProxy \<Rightarrow> world \<Rightarrow> EditorBinding \<times> world" where
  "findOrCreateEditorBinding ep w =
     (case editorBindingsByEditorProxy (this w) ep of
        Some editorBinding \<Rightarrow> (editorBinding, w)
      | None \<Rightarrow>
          (let (bufferBinding, w1) = findOrCreateBufferBinding (bufferProxy ep) w;
               ed = TextEditor (nextTextEditor w1) (buffer bufferBinding);
               editorBinding = \<lparr>editor = ed, isHost = False\<rparr>;
               w2 = w1\<lparr>nextTextEditor := Suc (nextTextEditor w1),
                       effects := effects w1 @
                         [NewTextEditor ed, NewEditorBinding editorBinding,
                          EditorBindingSetEditorProxy editorBinding ep,
                          EditorProxySetDelegate ep editorBinding,
                          SetCursorBufferPosition ed 0 0]\<rparr>
           in (editorBinding,
               w2\<lparr>this := (this w2)\<lparr>editorBindingsByEditorProxy :=
                     (editorBindingsByEditorProxy (this w2))(ep \<mapsto> editorBinding)\<rparr>\<rparr>)))"

definition setActiveEditorProxy :: "EditorProxy option \<Rightarrow> world \<Rightarrow> unit result" where
  "setActiveEditorProxy editorProxy w =
     (case editorProxy of
        None \<Rightarrow> replaceActivePaneItem (emptyPortalItem (this w)) w
      | Some ep \<Rightarrow>
          (let (editorBinding, w1) = findOrCreateEditorBinding ep w;
               w2 = w1\<lparr>this := (this w1)\<lparr>activeEditorBinding := Some editorBinding\<rparr>\<rparr>
           in andThen (replaceActivePaneItem (EditorItem (editor editorBinding)) w2)
                (\<lambda>u w3. (Inr (), addEffect (AutoscrollToLastHostSelection editorBinding) w3))))"

definition hostDidClosePortal :: "world \<Rightarrow> world" where
  "hostDidClosePortal w =
     (let w1 = addEffect (AddInfo ''Portal closed''
                 (Some \<lparr>description = ''Your host stopped sharing their editor.'',
                        dismissable = True\<rparr>)) w
      in w1\<lparr>this := (this w1)\<lparr>activePaneItem := None\<rparr>\<rparr>)"

definition hostDidLoseConnection :: "world \<Rightarrow> world" where
  "hostDidLoseConnection w =
     (let w1 = addEffect (AddInfo ''Portal closed''
                 (Some \<lparr>description =
                          ''We haven't heard from the host in a while.\<newline>'' @
                          ''Once your host is back online, they can share a new portal with you to resume collaborating.'',
                        dismissable = True\<rparr>)) w
      in w1\<lparr>this := (this w1)\<lparr>activePaneItem := None\<rparr>\<rparr>)"

definition getActivePaneItem :: "world \<Rightarrow> paneItem option" where
  "getActivePaneItem w =
     (case newActivePaneItem (this w) of
        Some item \<Rightarrow> Some item
      | None \<Rightarrow> activePaneItem (this w))"

text \<open>
  The calls one \<open>dispose()\<close> makes when no destroy observer answers: they are read
  off the binding's fields, which \<open>dispose\<close> does not change.
\<close>

definition teardownCalls :: "GuestPortalBinding \<Rightarrow> effect list" where
  "teardownCalls b =
     (case activePaneItemDestroySubscription b of Some d \<Rightarrow> [DisposableDispose d] | None \<Rightarrow> []) @
     (case activePaneItem b of Some item \<Rightarrow> [ItemDestroy item] | None \<Rightarrow> []) @
     [ItemDestroy (emptyPortalItem b), EmitDidDispose]"

text \<open>
  A sequence of calls of \<open>setActiveEditorProxy\<close>, oldest first; each call is made in the
  world the one before left, whether that one returned or raised.
\<close>

fun setActiveEditorProxyCalls :: "EditorProxy option list \<Rightarrow> world \<Rightarrow> world" where
  "setActiveEditorProxyCalls [] w = w"
| "setActiveEditorProxyCalls (editorProxy # rest) w =
     setActiveEditorProxyCalls rest (snd (setActiveEditorProxy editorProxy w))"

text \<open>The constructor calls in a log, by the class constructed.\<close>

fun isNewTextBuffer :: "effect \<Rightarrow> bool" where
  "isNewTextBuffer (NewTextBuffer b) = True"
| "isNewTextBuffer e = False"

fun isNewBufferBinding :: "effect \<Rightarrow> bool" where
  "isNewBufferBinding (NewBufferBinding b) = True"
| "isNewBufferBinding e = False"

fun isNewTextEditor :: "effect \<Rightarrow> bool" where
  "isNewTextEditor (NewTextEditor b) = True"
| "isNewTextEditor e = False"

fun isNewEditorBinding :: "effect \<Rightarrow> bool" where
  "isNewEditorBinding (NewEditorBinding b) = True"
| "isNewEditorBinding e = False"

definition isConstruction :: "effect \<Rightarrow> bool" where
  "isConstruction e =
     (isNewTextBuffer e \<or> isNewBufferBinding e \<or> isNewTextEditor e \<or> isNewEditorBinding e)"

text \<open>
  What \<open>setActiveEditorProxy\<close> keeps about proxies: the two maps, the active editor
  binding, the allocation counters, and the constructor calls made so far.
\<close>

definition registry ::
  "world \<Rightarrow> (EditorProxy \<rightharpoonup> EditorBinding) \<times> (BufferProxy \<rightharpoonup> BufferBinding) \<times>
     EditorBinding option \<times> nat \<times> nat \<times> effect list" where
  "registry w =
     (editorBindingsByEditorProxy (this w), bufferBindingsByBufferProxy (this w),
      activeEditorBinding (this w), nextTextBuffer w, nextTextEditor w,
      filter isConstruction (effects w))"

text \<open>
  The bookkeeping is in order when every buffer binding belongs to the buffer proxy of a
  registered editor proxy and each class was constructed once per key of its map.
\<close>

definition registryInv :: "world \<Rightarrow> bool" where
  "registryInv w =
     (finite (dom (editorBindingsByEditorProxy (this w))) \<and>
      dom (bufferBindingsByBufferProxy (this w)) =
        bufferProxy ` dom (editorBindingsByEditorProxy (this w)) \<and>
      length (filter isNewTextEditor (effects w)) = card (dom (editorBindingsByEditorProxy (this w))) \<and>
      length (filter isNewEditorBinding (effects w)) = card (dom (editorBindingsByEditorProxy (this w))) \<and>
      length (filter isNewTextBuffer (effects w)) = card (dom (bufferBindingsByBufferProxy (this w))) \<and>
      length (filter isNewBufferBinding (effects w)) = card (dom (bufferBindingsByBufferProxy (this w))))"

text \<open>
  The two halves of \<open>replaceActivePaneItem\<close>, named for the proofs: the \<open>if\<close>/\<open>else\<close>
  that puts the item into the workspace (lines 154 to 161), and the bookkeeping after it
  (lines 163 to 166).
\<close>

definition placeItem :: "paneItem \<Rightarrow> world \<Rightarrow> unit result" where
  "placeItem item w =
     (case activePaneItem (this w) of
        Some old \<Rightarrow>
          (case paneForItem (panes w) old of
             None \<Rightarrow> (Inl TypeError, w)
           | Some k \<Rightarrow>
               (Inr (), paneRemoveItem k old (paneAddItem k item (indexOf (panes w ! k) old) w)))
      | None \<Rightarrow> (Inr (), workspaceOpen item w))"

definition trackItem :: "world \<Rightarrow> unit result" where
  "trackItem w =
     (let w3 = w\<lparr>this := (this w)\<lparr>activePaneItem := newActivePaneItem (this w)\<rparr>\<rparr>;
          w4 = disposeDestroySubscription w3 in
      case activePaneItem (this w4) of
        None \<Rightarrow> (Inl TypeError, w4)
      | Some a \<Rightarrow>
          (let (d, w5) = onDidDestroy a w4;
               w6 = w5\<lparr>this := (this w5)\<lparr>activePaneItemDestroySubscription := Some d\<rparr>\<rparr>
           in (Inr (), w6\<lparr>this := (this w6)\<lparr>newActivePaneItem := None\<rparr>\<rparr>)))"

text \<open>
  \<open>replaceActivePaneItem\<close> as the event loop runs it. A call runs to the end at once when
  there is an active pane item (that branch has no \<open>await\<close>); with none it calls
  \<open>workspace.open\<close> and is suspended at the \<open>await\<close> of line 160, with
  \<open>this.newActivePaneItem\<close> set and \<open>this.activePaneItem\<close> still \<open>null\<close>. Other calls can
  start before it is resumed; when it is resumed it runs lines 163 to 166 on the fields
  as they are by then. The workspace is taken to have placed the item when the call of
  \<open>workspace.open\<close> was made.
\<close>

datatype progress = Finished | Suspended

definition replaceActivePaneItemStart :: "paneItem \<Rightarrow> world \<Rightarrow> progress result" where
  "replaceActivePaneItemStart item w =
     (let w1 = w\<lparr>this := (this w)\<lparr>newActivePaneItem := Some item\<rparr>\<rparr> in
      case activePaneItem (this w1) of
        Some old \<Rightarrow>
          andThen (placeItem item w1)
            (\<lambda>u w2. andThen (trackItem w2) (\<lambda>u' w3. (Inr Finished, w3)))
      | None \<Rightarrow> andThen (placeItem item w1) (\<lambda>u w2. (Inr Suspended, w2)))"

definition replaceActivePaneItemResume :: "world \<Rightarrow> unit result" where
  "replaceActivePaneItemResume w = trackItem w"

section \<open>The portal status bar indicator (lib/portal-status-bar-indicator.js)\<close>

text \<open>
  The indicator's element has one \<open>onclick\<close> slot, set by the constructor to
  \<open>handleInitialClick\<close>. \<open>handleInitialClick\<close> is an \<open>async\<close> method: a call runs its
  body up to the first \<open>await\<close> and returns; the rest runs when the awaited promise
  settles. An invocation waiting at an \<open>await\<close> is kept as its continuation, and any
  number of invocations may be waiting at once.
\<close>

datatype continuation =
    AwaitGetPortalBindingManager
  | AwaitGetAuthenticationProvider
  | AwaitSignInUsingSavedToken

text \<open>The calls \<open>handleInitialClick\<close> makes, in the order of the source.\<close>

datatype indicatorCall =
    GetPortalBindingManager
  | PortalBindingManagerOnDidChange
  | GetAuthenticationProvider
  | SignInUsingSavedToken
  | NewPopoverComponent
  | TooltipManagerAdd
  | ElementClick

record indicator =
  onclick :: bool
  suspended :: "continuation list"
  portalBindingManager :: bool
  authenticationProvider :: bool
  popoverComponent :: bool
  tooltip :: bool
  calls :: "indicatorCall list"

text \<open>
  The constructor: \<open>this.element.onclick = this.handleInitialClick.bind(this)\<close>. The
  fields \<open>portalBindingManager\<close>, \<open>authenticationProvider\<close>, \<open>popoverComponent\<close> and
  \<open>tooltip\<close> say whether the field holds an object yet.
\<close>

definition newIndicator :: indicator where
  "newIndicator =
     \<lparr>onclick = True, suspended = [], portalBindingManager = False,
      authenticationProvider = False, popoverComponent = False, tooltip = False,
      calls = []\<rparr>"

text \<open>
  The body of \<open>handleInitialClick\<close> up to its first \<open>await\<close>: the handler is taken off
  the element, \<open>this.props.getPortalBindingManager()\<close> is called, and the invocation waits.
\<close>

definition handleInitialClick :: "indicator \<Rightarrow> indicator" where
  "handleInitialClick i =
     (let i1 = i\<lparr>onclick := False\<rparr>;
          i2 = i1\<lparr>calls := calls i1 @ [GetPortalBindingManager]\<rparr>
      in i2\<lparr>suspended := suspended i2 @ [AwaitGetPortalBindingManager]\<rparr>)"

text \<open>A click event on the element runs the handler in the \<open>onclick\<close> slot, if any.\<close>

definition dispatchClick :: "indicator \<Rightarrow> indicator" where
  "dispatchClick i = (if onclick i then handleInitialClick i else i)"

text \<open>
  How an awaited promise settles: fulfilled with an object, fulfilled with \<open>null\<close> or
  \<open>undefined\<close>, or rejected. A rejection, and a method call on \<open>null\<close>, throw out of
  the invocation, which ends there.
\<close>

datatype settled = FulfilledObject | FulfilledNull | Thrown

fun resume :: "continuation \<Rightarrow> settled \<Rightarrow> indicator \<Rightarrow> indicator" where
  "resume c Thrown i = i"
| "resume AwaitGetPortalBindingManager FulfilledNull i = i"
| "resume AwaitGetPortalBindingManager FulfilledObject i =
     (let i1 = i\<lparr>portalBindingManager := True\<rparr>;
          i2 = i1\<lparr>calls := calls i1 @ [PortalBindingManagerOnDidChange, GetAuthenticationProvider]\<rparr>
      in i2\<lparr>suspended := suspended i2 @ [AwaitGetAuthenticationProvider]\<rparr>)"
| "resume AwaitGetAuthenticationProvider FulfilledNull i = i"
| "resume AwaitGetAuthenticationProvider FulfilledObject i =
     (let i1 = i\<lparr>authenticationProvider := True\<rparr>;
          i2 = i1\<lparr>calls := calls i1 @ [SignInUsingSavedToken]\<rparr>
      in i2\<lparr>suspended := suspended i2 @ [AwaitSignInUsingSavedToken]\<rparr>)"
| "resume AwaitSignInUsingSavedToken s i =
     (let i1 = i\<lparr>calls := calls i @ [NewPopoverComponent], popoverComponent := True\<rparr>;
          i2 = i1\<lparr>calls := calls i1 @ [TooltipManagerAdd], tooltip := True\<rparr>
      in dispatchClick (i2\<lparr>calls := calls i2 @ [ElementClick]\<rparr>))"

text \<open>
  What can happen to an indicator: its element is clicked, or the promise that the
  \<open>n\<close>-th waiting invocation awaits settles.
\<close>

datatype event = Click | Settle nat settled

fun step :: "event \<Rightarrow> indicator \<Rightarrow> indicator" where
  "step Click i = dispatchClick i"
| "step (Settle n s) i =
     (if n < length (suspended i)
      then resume (suspended i ! n) s
             (i\<lparr>suspended := take n (suspended i) @ drop (Suc n) (suspended i)\<rparr>)
      else i)"

fun run :: "event list \<Rightarrow> indicator \<Rightarrow> indicator" where
  "run [] i = i"
| "run (e # es) i = run es (step e i)"

text \<open>
  The states an indicator can be in: untouched, or with the handler taken off and one
  invocation of \<open>handleInitialClick\<close> somewhere along its way.
\<close>

definition indicatorStates :: "(bool \<times> continuation list \<times> indicatorCall list) list" where
  "indicatorStates =
     [(True, [], []),
      (False, [AwaitGetPortalBindingManager], [GetPortalBindingManager]),
      (False, [], [GetPortalBindingManager]),
      (False, [AwaitGetAuthenticationProvider],
         [GetPortalBindingManager, PortalBindingManagerOnDidChange, GetAuthenticationProvider]),
      (False, [],
         [GetPortalBindingManager, PortalBindingManagerOnDidChange, GetAuthenticationProvider]),
      (False, [AwaitSignInUsingSavedToken],
         [GetPortalBindingManager, PortalBindingManagerOnDidChange, GetAuthenticationProvider,
          SignInUsingSavedToken]),
      (False, [],
         [GetPortalBindingManager, PortalBindingManagerOnDidChange, GetAuthenticationProvider,
          SignInUsingSavedToken]),
      (False, [],
         [GetPortalBindingManager, PortalBindingManagerOnDidChange, GetAuthenticationProvider,
          SignInUsingSavedToken, NewPopoverComponent, TooltipManagerAdd, ElementClick])]"

definition indicatorInv :: "indicator \<Rightarrow> bool" where
  "indicatorInv i = ((onclick i, suspended i, calls i) \<in> set indicatorStates)"


section \<open>Properties of the guest portal binding\<close>

subsection \<open>Evaluation and sequencing\<close>

lemmas method_defs =
  newWorld_def constructor_def setActiveEditorProxy_def replaceActivePaneItem_def
  findOrCreateEditorBinding_def findOrCreateBufferBinding_def
  workspaceOpen_def paneAddItem_def paneRemoveItem_def indexOf_def onDidDestroy_def
  disposableDispose_def disposeDestroySubscription_def addEffect_def dispose_def
  itemDestroy_def leave_def Let_def

lemma andThen_Inr [simp]: "andThen (Inr a, w) f = f a w"
  by (simp add: andThen_def)

lemma andThen_Inl [simp]: "andThen (Inl e, w) f = (Inl e, w)"
  by (simp add: andThen_def)

lemma andThen_ok:
  "fst (andThen r f) = Inr b \<Longrightarrow> \<exists>a. fst r = Inr a \<and> andThen r f = f a (snd r)"
  by (cases r; cases "fst r") auto

lemma andThen_okI: "fst r = Inr a \<Longrightarrow> andThen r f = f a (snd r)"
  by (cases r) auto

subsection \<open>Site notifications and host disconnects\<close>

text \<open>
  C8. \<open>siteDidJoin(id)\<close> and \<open>siteDidLeave(id)\<close> leave the binding as it was: every field
  of it (among them \<open>activePaneItem\<close>, \<open>activeEditorBinding\<close>, \<open>editorBindingsByEditorProxy\<close>
  and \<open>bufferBindingsByBufferProxy\<close>) is the same before and after the call, whether the
  call returns or raises; the workspace and the destroy observers are untouched, and the
  only calls made are one informational notification followed by one \<open>did-change\<close> event
  (none at all when the call raises).
\<close>

theorem siteDidJoin_siteDidLeave_frame:
  "this (snd (siteDidJoin siteId w)) = this w \<and>
   this (snd (siteDidLeave siteId w)) = this w \<and>
   snd (siteDidJoin siteId w) = w\<lparr>effects := effects (snd (siteDidJoin siteId w))\<rparr> \<and>
   snd (siteDidLeave siteId w) = w\<lparr>effects := effects (snd (siteDidLeave siteId w))\<rparr> \<and>
   (effects (snd (siteDidJoin siteId w)) = effects w \<or>
    (\<exists>m. effects (snd (siteDidJoin siteId w)) =
            effects w @ [AddInfo m None, EmitterEmit ''did-change''])) \<and>
   (effects (snd (siteDidLeave siteId w)) = effects w \<or>
    (\<exists>m. effects (snd (siteDidLeave siteId w)) =
            effects w @ [AddInfo m None, EmitterEmit ''did-change'']))"
  by (simp add: siteDidJoin_def siteDidLeave_def addEffect_def split: option.splits)

theorem siteDidJoin_siteDidLeave_frame_witness:
  "fst (siteDidJoin 2 (snd (initialize (Resolved (Some (Portal [(1, ''host''), (2, ''guest'')])))
          (newWorld ''p'' [[]] 0)))) = Inr () \<and>
   effects (snd (siteDidJoin 2 (snd (initialize (Resolved (Some (Portal [(1, ''host''), (2, ''guest'')])))
          (newWorld ''p'' [[]] 0))))) =
     [PortalSetDelegate (Portal [(1, ''host''), (2, ''guest'')]),
      AddInfo ''@guest has joined @host's portal'' None, EmitterEmit ''did-change''] \<and>
   this (snd (siteDidLeave 2 (snd (initialize (Resolved (Some (Portal [(1, ''host''), (2, ''guest'')])))
          (newWorld ''p'' [[]] 0))))) =
     (constructor ''p'')\<lparr>portal := Some (Portal [(1, ''host''), (2, ''guest'')])\<rparr>"
  using siteDidJoin_siteDidLeave_frame
    [of 2 "snd (initialize (Resolved (Some (Portal [(1, ''host''), (2, ''guest'')])))
          (newWorld ''p'' [[]] 0))"]
  by (simp add: siteDidJoin_def siteDidLeave_def addEffect_def initialize_def newWorld_def
      getSiteIdentity_def)

text \<open>
  C5. \<open>hostDidClosePortal()\<close> and \<open>hostDidLoseConnection()\<close> set \<open>activePaneItem\<close> to
  \<open>null\<close> and change nothing else of the binding or of the workspace: the panes keep
  the displayed view, no item is destroyed, and the editor and buffer bindings stay in
  their maps. Each makes exactly one call, an informational notification, and the
  notification of the one differs from the notification of the other.
\<close>

theorem hostDidClosePortal_hostDidLoseConnection_detach:
  "activePaneItem (this (hostDidClosePortal w)) = None \<and>
   activePaneItem (this (hostDidLoseConnection w)) = None \<and>
   hostDidClosePortal w =
     w\<lparr>this := (this w)\<lparr>activePaneItem := None\<rparr>, effects := effects (hostDidClosePortal w)\<rparr> \<and>
   hostDidLoseConnection w =
     w\<lparr>this := (this w)\<lparr>activePaneItem := None\<rparr>, effects := effects (hostDidLoseConnection w)\<rparr> \<and>
   (\<exists>m opts. effects (hostDidClosePortal w) = effects w @ [AddInfo m opts]) \<and>
   (\<exists>m opts. effects (hostDidLoseConnection w) = effects w @ [AddInfo m opts]) \<and>
   last (effects (hostDidClosePortal w)) \<noteq> last (effects (hostDidLoseConnection w))"
  by (simp add: hostDidClosePortal_def hostDidLoseConnection_def addEffect_def Let_def)

theorem hostDidClosePortal_hostDidLoseConnection_detach_witness:
  "panes (hostDidClosePortal
      ((newWorld ''p'' [[EmptyPortalPaneItem]] 0)
         \<lparr>this := (constructor ''p'')\<lparr>activePaneItem := Some EmptyPortalPaneItem\<rparr>\<rparr>)) =
     [[EmptyPortalPaneItem]] \<and>
   activePaneItem (this (hostDidLoseConnection
      ((newWorld ''p'' [[EmptyPortalPaneItem]] 0)
         \<lparr>this := (constructor ''p'')\<lparr>activePaneItem := Some EmptyPortalPaneItem\<rparr>\<rparr>))) = None"
  using hostDidClosePortal_hostDidLoseConnection_detach
    [of "(newWorld ''p'' [[EmptyPortalPaneItem]] 0)
           \<lparr>this := (constructor ''p'')\<lparr>activePaneItem := Some EmptyPortalPaneItem\<rparr>\<rparr>"]
  by (simp add: hostDidClosePortal_def hostDidLoseConnection_def addEffect_def Let_def newWorld_def)

subsection \<open>Joining\<close>

text \<open>
  C3, the claim as stated fails: when \<open>client.joinPortal\<close> resolves to \<open>null\<close>,
  \<open>initialize()\<close> returns \<open>false\<close> through the guard \<open>if (!this.portal) return false\<close>
  and makes no call at all, so no notification is produced.
\<close>

theorem initialize_null_portal_is_silent:
  "fst (initialize (Resolved None) (newWorld ''some-nonexistent-portal-id'' [[]] 0)) = Inr False \<and>
   effects (snd (initialize (Resolved None) (newWorld ''some-nonexistent-portal-id'' [[]] 0))) = []"
  by (simp add: initialize_def newWorld_def)

text \<open>
  C3, as amended. \<open>initialize()\<close> never raises. When the join resolves to \<open>null\<close> it
  returns \<open>false\<close>, makes no call, and only stores the \<open>null\<close> in \<open>this.portal\<close>. When the
  join throws it returns \<open>false\<close>, leaves the binding and the workspace as they were,
  and makes exactly one call, a dismissable error notification (\<open>Portal not found\<close> for
  a \<open>PortalNotFoundError\<close>, \<open>Failed to join portal\<close> with the portal id and the error's
  message for any other error). In neither case is a delegate registered or a buffer or
  editor binding created. When the join resolves to a portal it stores the portal,
  registers the binding as its delegate and returns \<open>true\<close>.
\<close>

theorem initialize_outcomes:
  "initialize (Resolved None) w = (Inr False, w\<lparr>this := (this w)\<lparr>portal := None\<rparr>\<rparr>) \<and>
   fst (initialize (Rejected err) w) = Inr False \<and>
   snd (initialize (Rejected err) w) = w\<lparr>effects := effects (snd (initialize (Rejected err) w))\<rparr> \<and>
   (\<exists>m d. effects (snd (initialize (Rejected err) w)) =
            effects w @ [AddError m (Some \<lparr>description = d, dismissable = True\<rparr>)]) \<and>
   effects (snd (initialize (Rejected (PortalNotFoundError msg)) w)) =
     effects w @ [AddError ''Portal not found''
       (Some \<lparr>description = ''No portal exists with that ID. Please ask your host to provide you with their current portal ID.'',
              dismissable = True\<rparr>)] \<and>
   effects (snd (initialize (Rejected (OtherError msg)) w)) =
     effects w @ [AddError ''Failed to join portal''
       (Some \<lparr>description = ''Attempting to join portal '' @ portalId (this w) @
                '' failed with error: <code>'' @ msg @ ''</code>'',
              dismissable = True\<rparr>)] \<and>
   initialize (Resolved (Some p)) w =
     (Inr True, w\<lparr>this := (this w)\<lparr>portal := Some p\<rparr>, effects := effects w @ [PortalSetDelegate p]\<rparr>)"
  by (simp add: initialize_def didFailToJoin_def addEffect_def split: error.splits)

theorem initialize_outcomes_witness:
  "effects (snd (initialize (Rejected (OtherError ''timeout'')) (newWorld ''abc'' [[]] 0))) =
     [AddError ''Failed to join portal''
        (Some \<lparr>description = ''Attempting to join portal abc failed with error: <code>timeout</code>'',
               dismissable = True\<rparr>)] \<and>
   portal (this (snd (initialize (Resolved (Some (Portal [(1, ''host'')]))) (newWorld ''abc'' [[]] 0)))) =
     Some (Portal [(1, ''host'')])"
  using initialize_outcomes [of "newWorld ''abc'' [[]] 0" "OtherError ''timeout''" "''x''" "Portal [(1, ''host'')]"]
  by (simp add: initialize_def didFailToJoin_def addEffect_def newWorld_def constructor_def)

subsection \<open>Leaving\<close>

lemma callLeave_eq:
  "callLeave n w =
     (case portal (this w) of
        None \<Rightarrow> (if n = 0 then (Inr (), w) else (Inl TypeError, w))
      | Some p \<Rightarrow> (Inr (), w\<lparr>effects := effects w @ replicate n (PortalDispose p)\<rparr>))"
proof (induction n arbitrary: w)
  case 0
  then show ?case by (simp split: option.splits)
next
  case (Suc n)
  show ?case
  proof (cases "portal (this w)")
    case None
    then show ?thesis by (simp add: leave_def)
  next
    case (Some p)
    then have "portal (this (addEffect (PortalDispose p) w)) = Some p"
      by (simp add: addEffect_def)
    with Suc.IH [of "addEffect (PortalDispose p) w"] Some show ?thesis
      by (simp add: leave_def addEffect_def replicate_app_Cons_same)
  qed
qed

lemma callLeave_this: "this (snd (callLeave n w)) = this w"
  by (simp add: callLeave_eq split: option.splits)

lemma callLeave_observers: "destroyObservers (snd (callLeave n w)) = destroyObservers w"
  by (simp add: callLeave_eq split: option.splits)

text \<open>
  C9, the claim as stated fails: before \<open>initialize\<close> has stored a portal,
  \<open>this.portal\<close> is \<open>undefined\<close> and \<open>leave()\<close> raises a \<open>TypeError\<close>.
\<close>

theorem leave_before_initialize_raises:
  "fst (leave (newWorld ''portal-id'' [[]] 0)) = Inl TypeError"
  by (simp add: leave_def newWorld_def constructor_def)

text \<open>
  C9, as amended. With a portal joined, \<open>leave()\<close> returns normally, calls
  \<open>dispose()\<close> on that portal once and changes nothing else; it keeps no record of
  having been called, so \<open>n\<close> calls in a row (\<open>callLeave n\<close>) call the portal's
  \<open>dispose()\<close> \<open>n\<close> times, and a repeated call is harmless exactly as far as the
  portal's own \<open>dispose()\<close> is. With no portal stored (\<open>undefined\<close> before
  \<open>initialize\<close>, \<open>null\<close> after a join that found none) \<open>leave()\<close> raises a \<open>TypeError\<close>
  and changes nothing.
\<close>

theorem leave_disposes_portal_every_call:
  "(portal (this w) = None \<longrightarrow> leave w = (Inl TypeError, w)) \<and>
   (\<forall>p. portal (this w) = Some p \<longrightarrow>
      leave w = (Inr (), w\<lparr>effects := effects w @ [PortalDispose p]\<rparr>) \<and>
      callLeave n w = (Inr (), w\<lparr>effects := effects w @ replicate n (PortalDispose p)\<rparr>))"
  by (simp add: leave_def addEffect_def callLeave_eq)

theorem leave_disposes_portal_every_call_witness:
  "portal (this (snd (initialize (Resolved (Some (Portal []))) (newWorld ''id'' [[]] 0)))) =
     Some (Portal []) \<and>
   effects (snd (callLeave (Suc (Suc 0)) (snd (initialize (Resolved (Some (Portal []))) (newWorld ''id'' [[]] 0))))) =
     [PortalSetDelegate (Portal []), PortalDispose (Portal []), PortalDispose (Portal [])] \<and>
   portal (this (newWorld ''id'' [[]] 0)) = None \<and>
   leave (newWorld ''id'' [[]] 0) = (Inl TypeError, newWorld ''id'' [[]] 0)"
proof -
  let ?w = "snd (initialize (Resolved (Some (Portal []))) (newWorld ''id'' [[]] 0))"
  have j: "portal (this ?w) = Some (Portal [])"
    by (simp add: initialize_def addEffect_def)
  have e: "effects ?w = [PortalSetDelegate (Portal [])]"
    by (simp add: initialize_def addEffect_def newWorld_def)
  have n: "portal (this (newWorld ''id'' [[]] 0)) = None"
    by (simp add: newWorld_def constructor_def)
  from leave_disposes_portal_every_call [of ?w "Suc (Suc 0)"] j e
    leave_disposes_portal_every_call [of "newWorld ''id'' [[]] 0" 0] n
  show ?thesis
    by (simp del: callLeave.simps)
qed

subsection \<open>Disposal\<close>

lemma itemDestroy_this: "this (snd (itemDestroy item w)) = this w"
  by (simp add: itemDestroy_def callLeave_this addEffect_def)

lemma itemDestroy_observers:
  "destroyObservers (snd (itemDestroy item w)) =
     filter (\<lambda>ob. snd ob \<noteq> item) (destroyObservers w)"
  by (simp add: itemDestroy_def callLeave_observers addEffect_def)

lemma itemDestroy_unobserved:
  assumes "\<forall>ob \<in> set (destroyObservers w). snd ob \<noteq> item"
  shows "itemDestroy item w =
           (Inr (), w\<lparr>panes := map (removeAll item) (panes w),
                      effects := effects w @ [ItemDestroy item]\<rparr>)"
proof -
  have "filter (\<lambda>ob. snd ob = item) (destroyObservers w) = []"
    using assms by (simp add: filter_empty_conv)
  moreover have "filter (\<lambda>ob. snd ob \<noteq> item) (destroyObservers w) = destroyObservers w"
    using assms by (simp add: filter_id_conv)
  ultimately show ?thesis
    by (simp add: itemDestroy_def addEffect_def)
qed

lemma disposeDestroySubscription_this: "this (disposeDestroySubscription w) = this w"
  by (simp add: disposeDestroySubscription_def disposableDispose_def addEffect_def
      split: option.splits)

lemma disposeDestroySubscription_observers:
  "set (destroyObservers (disposeDestroySubscription w)) \<subseteq> set (destroyObservers w)"
  by (auto simp: disposeDestroySubscription_def disposableDispose_def addEffect_def
      split: option.splits)

lemma disposeDestroySubscription_effects:
  "effects (disposeDestroySubscription w) = effects w @
     (case activePaneItemDestroySubscription (this w) of
        Some d \<Rightarrow> [DisposableDispose d] | None \<Rightarrow> [])"
  by (simp add: disposeDestroySubscription_def disposableDispose_def addEffect_def
      split: option.splits)

lemma dispose_unfold:
  "dispose w =
     andThen (case activePaneItem (this w) of
                Some item \<Rightarrow> itemDestroy item (disposeDestroySubscription w)
              | None \<Rightarrow> (Inr (), disposeDestroySubscription w))
       (\<lambda>u w2. andThen (itemDestroy (emptyPortalItem (this w2)) w2)
                  (\<lambda>u' w3. (Inr (), addEffect EmitDidDispose w3)))"
  by (simp add: dispose_def Let_def disposeDestroySubscription_this)

lemma dispose_completed:
  assumes "fst (dispose w) = Inr ()"
  shows "this (snd (dispose w)) = this w"
    and "\<forall>ob \<in> set (destroyObservers (snd (dispose w))). snd ob \<noteq> emptyPortalItem (this w)"
    and "\<forall>ob \<in> set (destroyObservers (snd (dispose w))).
           activePaneItem (this w) \<noteq> Some (snd ob)"
proof -
  define r2 where "r2 = (case activePaneItem (this w) of
                Some item \<Rightarrow> itemDestroy item (disposeDestroySubscription w)
              | None \<Rightarrow> (Inr (), disposeDestroySubscription w))"
  define r3 where "r3 = itemDestroy (emptyPortalItem (this (snd r2))) (snd r2)"
  have this2: "this (snd r2) = this w"
    by (simp add: r2_def itemDestroy_this disposeDestroySubscription_this split: option.splits)
  have obs2: "\<forall>ob \<in> set (destroyObservers (snd r2)). activePaneItem (this w) \<noteq> Some (snd ob)"
    by (auto simp: r2_def itemDestroy_observers split: option.splits)
  from assms obtain a where a: "fst r2 = Inr a"
    and d1: "dispose w = andThen r3 (\<lambda>u' w3. (Inr (), addEffect EmitDidDispose w3))"
    unfolding dispose_unfold r2_def [symmetric] r3_def by (auto dest: andThen_ok)
  from assms d1 obtain b where "fst r3 = Inr b"
    and d2: "dispose w = (Inr (), addEffect EmitDidDispose (snd r3))"
    by (auto dest: andThen_ok)
  have this3: "this (snd r3) = this w"
    by (simp add: r3_def itemDestroy_this this2)
  have obs3: "destroyObservers (snd r3) =
      filter (\<lambda>ob. snd ob \<noteq> emptyPortalItem (this w)) (destroyObservers (snd r2))"
    by (simp add: r3_def itemDestroy_observers this2)
  show "this (snd (dispose w)) = this w"
    by (simp add: d2 addEffect_def this3)
  show "\<forall>ob \<in> set (destroyObservers (snd (dispose w))). snd ob \<noteq> emptyPortalItem (this w)"
    by (simp add: d2 addEffect_def obs3)
  show "\<forall>ob \<in> set (destroyObservers (snd (dispose w))).
           activePaneItem (this w) \<noteq> Some (snd ob)"
    using obs2 by (simp add: d2 addEffect_def obs3)
qed

lemma dispose_unobserved:
  assumes e: "\<forall>ob \<in> set (destroyObservers w). snd ob \<noteq> emptyPortalItem (this w)"
    and a: "\<forall>ob \<in> set (destroyObservers w). activePaneItem (this w) \<noteq> Some (snd ob)"
  shows "fst (dispose w) = Inr ()"
    and "effects (snd (dispose w)) = effects w @ teardownCalls (this w)"
proof -
  let ?w1 = "disposeDestroySubscription w"
  define w2 where "w2 = (case activePaneItem (this w) of
      Some item \<Rightarrow> ?w1\<lparr>panes := map (removeAll item) (panes ?w1),
                        effects := effects ?w1 @ [ItemDestroy item]\<rparr>
    | None \<Rightarrow> ?w1)"
  have r2: "(case activePaneItem (this w) of
                Some item \<Rightarrow> itemDestroy item (disposeDestroySubscription w)
              | None \<Rightarrow> (Inr (), disposeDestroySubscription w)) = (Inr (), w2)"
  proof (cases "activePaneItem (this w)")
    case None
    then show ?thesis by (simp add: w2_def)
  next
    case (Some item)
    have "\<forall>ob \<in> set (destroyObservers ?w1). snd ob \<noteq> item"
      using a Some disposeDestroySubscription_observers [of w] by auto
    from itemDestroy_unobserved [OF this] Some show ?thesis
      by (simp add: w2_def)
  qed
  have this2: "this w2 = this w"
    by (simp add: w2_def disposeDestroySubscription_this split: option.splits)
  have obs2: "destroyObservers w2 = destroyObservers ?w1"
    by (simp add: w2_def split: option.splits)
  have eff2: "effects w2 = effects ?w1 @
      (case activePaneItem (this w) of Some item \<Rightarrow> [ItemDestroy item] | None \<Rightarrow> [])"
    by (simp add: w2_def split: option.splits)
  have "\<forall>ob \<in> set (destroyObservers w2). snd ob \<noteq> emptyPortalItem (this w2)"
    using e disposeDestroySubscription_observers [of w] by (auto simp: obs2 this2)
  from itemDestroy_unobserved [OF this]
  have d: "dispose w = (Inr (), addEffect EmitDidDispose
      (w2\<lparr>panes := map (removeAll (emptyPortalItem (this w2))) (panes w2),
          effects := effects w2 @ [ItemDestroy (emptyPortalItem (this w2))]\<rparr>))"
    by (simp add: dispose_unfold r2)
  show "fst (dispose w) = Inr ()"
    by (simp add: d)
  show "effects (snd (dispose w)) = effects w @ teardownCalls (this w)"
    by (simp add: d addEffect_def eff2 this2 disposeDestroySubscription_effects teardownCalls_def)
qed

text \<open>
  C4, the claim as stated fails: the class has no \<open>disposed\<close> flag, and a second
  \<open>dispose()\<close> makes every teardown call again. With the placeholder displayed, each of
  the two calls disposes the destroy subscription, calls \<open>destroy()\<close> on the active pane
  item and on the empty portal item, and fires \<open>didDispose\<close>: \<open>didDispose\<close> fires twice.
\<close>

theorem dispose_twice_fires_didDispose_twice:
  "effects (snd (dispose (snd (setActiveEditorProxy None (newWorld ''portal-id'' [[]] 0))))) =
     [WorkspaceOpen EmptyPortalPaneItem,
      DisposableDispose 0, ItemDestroy EmptyPortalPaneItem, ItemDestroy EmptyPortalPaneItem,
      EmitDidDispose] \<and>
   effects (snd (dispose (snd (dispose
       (snd (setActiveEditorProxy None (newWorld ''portal-id'' [[]] 0))))))) =
     [WorkspaceOpen EmptyPortalPaneItem,
      DisposableDispose 0, ItemDestroy EmptyPortalPaneItem, ItemDestroy EmptyPortalPaneItem,
      EmitDidDispose,
      DisposableDispose 0, ItemDestroy EmptyPortalPaneItem, ItemDestroy EmptyPortalPaneItem,
      EmitDidDispose]"
  by (simp add: method_defs)

text \<open>
  C4, as amended. \<open>dispose()\<close> does not change the binding's fields and sets no flag.
  After a first call that completed, a second call completes too and repeats the
  teardown calls in full: it calls \<open>dispose()\<close> on the destroy subscription when the
  field holds one, \<open>destroy()\<close> on the tracked active pane item when there is one,
  \<open>destroy()\<close> on the empty portal item, and the \<open>didDispose\<close> callback. Every call of
  \<open>dispose()\<close> so fires \<open>didDispose\<close> once; whether the repeated \<open>destroy()\<close> and
  \<open>dispose()\<close> calls do anything is up to the objects called.
\<close>

theorem dispose_repeats_teardown:
  assumes "fst (dispose w) = Inr ()"
  shows "this (snd (dispose w)) = this w \<and>
         fst (dispose (snd (dispose w))) = Inr () \<and>
         effects (snd (dispose (snd (dispose w)))) =
           effects (snd (dispose w)) @ teardownCalls (this w)"
proof -
  note c = dispose_completed [OF assms]
  have "fst (dispose (snd (dispose w))) = Inr ()"
    and "effects (snd (dispose (snd (dispose w)))) =
           effects (snd (dispose w)) @ teardownCalls (this (snd (dispose w)))"
    by (rule dispose_unobserved; simp add: c)+
  with c(1) show ?thesis by simp
qed

theorem dispose_repeats_teardown_witness:
  "fst (dispose (snd (setActiveEditorProxy None (newWorld ''portal-id'' [[]] 0)))) = Inr () \<and>
   fst (dispose (snd (dispose (snd (setActiveEditorProxy None (newWorld ''portal-id'' [[]] 0)))))) = Inr () \<and>
   teardownCalls (this (snd (setActiveEditorProxy None (newWorld ''portal-id'' [[]] 0)))) =
     [DisposableDispose 0, ItemDestroy EmptyPortalPaneItem, ItemDestroy EmptyPortalPaneItem,
      EmitDidDispose]"
proof -
  have ok: "fst (dispose (snd (setActiveEditorProxy None (newWorld ''portal-id'' [[]] 0)))) = Inr ()"
    by (simp add: method_defs)
  from dispose_repeats_teardown [OF ok] ok show ?thesis
    by (simp add: teardownCalls_def method_defs)
qed

subsection \<open>Activating editor proxies\<close>

lemma replaceActivePaneItem_stages:
  "replaceActivePaneItem item w =
     andThen (placeItem item (w\<lparr>this := (this w)\<lparr>newActivePaneItem := Some item\<rparr>\<rparr>))
       (\<lambda>u. trackItem)"
  unfolding replaceActivePaneItem_def placeItem_def trackItem_def Let_def
  by (rule refl)

lemma andThen_snd:
  assumes "P (snd r)" and "\<And>a w'. P w' \<Longrightarrow> P (snd (f a w'))"
  shows "P (snd (andThen r f))"
  using assms by (cases r; cases "fst r") auto

lemma registry_addEffect:
  "\<not> isConstruction e \<Longrightarrow> registry (addEffect e w) = registry w"
  by (simp add: registry_def addEffect_def)

lemma registry_panes [simp]: "registry (w\<lparr>panes := ps\<rparr>) = registry w"
  by (simp add: registry_def)

lemma registry_activePane [simp]: "registry (w\<lparr>activePane := k\<rparr>) = registry w"
  by (simp add: registry_def)

lemma registry_paneAddItem: "registry (paneAddItem k item idx w) = registry w"
  by (simp add: paneAddItem_def Let_def registry_addEffect isConstruction_def)

lemma registry_paneRemoveItem: "registry (paneRemoveItem k item w) = registry w"
  by (simp add: paneRemoveItem_def registry_addEffect isConstruction_def)

lemma registry_workspaceOpen: "registry (workspaceOpen item w) = registry w"
  by (simp add: workspaceOpen_def registry_addEffect isConstruction_def split: option.splits)

lemma registry_placeItem: "registry (snd (placeItem item w)) = registry w"
  by (simp add: placeItem_def registry_paneAddItem registry_paneRemoveItem
      registry_workspaceOpen split: option.splits)

lemma registry_disposeDestroySubscription:
  "registry (disposeDestroySubscription w) = registry w"
  by (simp add: disposeDestroySubscription_def disposableDispose_def addEffect_def
      registry_def isConstruction_def split: option.splits)

lemma registry_trackItem: "registry (snd (trackItem w)) = registry w"
proof -
  let ?w3 = "w\<lparr>this := (this w)\<lparr>activePaneItem := newActivePaneItem (this w)\<rparr>\<rparr>"
  have r3: "registry ?w3 = registry w"
    by (simp add: registry_def)
  have r4: "registry (disposeDestroySubscription ?w3) = registry w"
    by (simp add: registry_disposeDestroySubscription r3)
  show ?thesis
  proof (cases "activePaneItem (this (disposeDestroySubscription ?w3))")
    case None
    then show ?thesis by (simp add: trackItem_def Let_def r4)
  next
    case (Some a)
    have "registry (snd (trackItem w)) = registry (disposeDestroySubscription ?w3)"
      using Some by (simp add: trackItem_def Let_def onDidDestroy_def registry_def)
    then show ?thesis by (simp add: r4)
  qed
qed

lemma registry_replaceActivePaneItem:
  "registry (snd (replaceActivePaneItem item w)) = registry w"
proof -
  let ?w1 = "w\<lparr>this := (this w)\<lparr>newActivePaneItem := Some item\<rparr>\<rparr>"
  have "registry ?w1 = registry w"
    by (simp add: registry_def)
  then have "registry (snd (placeItem item ?w1)) = registry w"
    by (simp add: registry_placeItem)
  then show ?thesis
    unfolding replaceActivePaneItem_stages
    by (rule andThen_snd) (simp add: registry_trackItem)
qed

lemma registry_setActiveEditorProxy_None:
  "registry (snd (setActiveEditorProxy None w)) = registry w"
  by (simp add: setActiveEditorProxy_def registry_replaceActivePaneItem)

lemma registry_setActiveEditorProxy_Some:
  "registry (snd (setActiveEditorProxy (Some ep) w)) =
     registry ((snd (findOrCreateEditorBinding ep w))
       \<lparr>this := (this (snd (findOrCreateEditorBinding ep w)))
          \<lparr>activeEditorBinding := Some (fst (findOrCreateEditorBinding ep w))\<rparr>\<rparr>)"
proof -
  obtain eb w1 where f: "findOrCreateEditorBinding ep w = (eb, w1)"
    by (cases "findOrCreateEditorBinding ep w")
  let ?w2 = "w1\<lparr>this := (this w1)\<lparr>activeEditorBinding := Some eb\<rparr>\<rparr>"
  have "registry (snd (andThen (replaceActivePaneItem (EditorItem (editor eb)) ?w2)
          (\<lambda>u w3. (Inr (), addEffect (AutoscrollToLastHostSelection eb) w3)))) = registry ?w2"
    by (rule andThen_snd)
       (simp_all add: registry_replaceActivePaneItem registry_addEffect isConstruction_def)
  then show ?thesis
    by (simp add: setActiveEditorProxy_def f)
qed

lemma findOrCreateEditorBinding_found:
  "editorBindingsByEditorProxy (this w) ep = Some eb \<Longrightarrow>
   findOrCreateEditorBinding ep w = (eb, w)"
  by (simp add: findOrCreateEditorBinding_def)

lemma registryInv_registry:
  "registry w' = registry w \<Longrightarrow> registryInv w' = registryInv w"
proof -
  assume r: "registry w' = registry w"
  have f: "\<And>P. (\<And>e. P e \<Longrightarrow> isConstruction e) \<Longrightarrow>
      filter P (effects w') = filter P (effects w)"
  proof -
    fix P :: "effect \<Rightarrow> bool"
    assume c: "\<And>e. P e \<Longrightarrow> isConstruction e"
    have "\<And>es. filter P (filter isConstruction es) = filter P es"
      using c by (auto simp: filter_filter intro: filter_cong)
    then have "filter P (effects w') = filter P (filter isConstruction (effects w'))"
      and "filter P (effects w) = filter P (filter isConstruction (effects w))"
      by simp_all
    with r show "filter P (effects w') = filter P (effects w)"
      by (simp add: registry_def)
  qed
  have "filter isNewTextEditor (effects w') = filter isNewTextEditor (effects w)"
    and "filter isNewEditorBinding (effects w') = filter isNewEditorBinding (effects w)"
    and "filter isNewTextBuffer (effects w') = filter isNewTextBuffer (effects w)"
    and "filter isNewBufferBinding (effects w') = filter isNewBufferBinding (effects w)"
    by (rule f, simp add: isConstruction_def)+
  moreover from r have "editorBindingsByEditorProxy (this w') = editorBindingsByEditorProxy (this w)"
    and "bufferBindingsByBufferProxy (this w') = bufferBindingsByBufferProxy (this w)"
    by (simp_all add: registry_def)
  ultimately show ?thesis
    by (simp add: registryInv_def)
qed

lemma findOrCreateEditorBinding_dom:
  "dom (editorBindingsByEditorProxy (this (snd (findOrCreateEditorBinding ep w)))) =
     insert ep (dom (editorBindingsByEditorProxy (this w)))"
  by (auto simp: findOrCreateEditorBinding_def findOrCreateBufferBinding_def Let_def
      split: option.splits prod.splits)

lemma registryInv_findOrCreateEditorBinding:
  assumes inv: "registryInv w"
  shows "registryInv (snd (findOrCreateEditorBinding ep w))"
proof (cases "editorBindingsByEditorProxy (this w) ep")
  case (Some eb)
  with inv show ?thesis by (simp add: findOrCreateEditorBinding_found)
next
  case None
  let ?em = "editorBindingsByEditorProxy (this w)"
  let ?bm = "bufferBindingsByBufferProxy (this w)"
  from inv have fin: "finite (dom ?em)" and img: "dom ?bm = bufferProxy ` dom ?em"
    by (simp_all add: registryInv_def)
  then have finb: "finite (dom ?bm)" by simp
  from None have notin: "ep \<notin> dom ?em" by (simp add: domIff)
  show ?thesis
  proof (cases "?bm (bufferProxy ep)")
    case (Some bb)
    then have "bufferProxy ep \<in> dom ?bm" by (simp add: domIff)
    then have "insert (bufferProxy ep) (dom ?bm) = dom ?bm" by auto
    with inv None Some fin notin show ?thesis
      by (simp add: registryInv_def findOrCreateEditorBinding_def
          findOrCreateBufferBinding_def Let_def)
  next
    case bnone: None
    then have "bufferProxy ep \<notin> dom ?bm" by (simp add: domIff)
    with inv None bnone fin finb notin show ?thesis
      by (simp add: registryInv_def findOrCreateEditorBinding_def
          findOrCreateBufferBinding_def Let_def)
  qed
qed

lemma registryInv_setActiveEditorProxy:
  assumes "registryInv w"
  shows "registryInv (snd (setActiveEditorProxy x w))"
proof (cases x)
  case None
  with assms show ?thesis
    by (simp add: registryInv_registry [OF registry_setActiveEditorProxy_None])
next
  case (Some ep)
  let ?w1 = "snd (findOrCreateEditorBinding ep w)"
  let ?w2 = "?w1\<lparr>this := (this ?w1)\<lparr>activeEditorBinding := Some (fst (findOrCreateEditorBinding ep w))\<rparr>\<rparr>"
  have "registryInv ?w2 = registryInv ?w1"
    by (simp add: registryInv_def)
  with registryInv_findOrCreateEditorBinding [OF assms, of ep] Some show ?thesis
    by (simp add: registryInv_registry [OF registry_setActiveEditorProxy_Some])
qed

lemma dom_setActiveEditorProxy:
  "dom (editorBindingsByEditorProxy (this (snd (setActiveEditorProxy x w)))) =
     dom (editorBindingsByEditorProxy (this w)) \<union> {ep. x = Some ep}"
proof (cases x)
  case None
  have "editorBindingsByEditorProxy (this (snd (setActiveEditorProxy None w))) =
      editorBindingsByEditorProxy (this w)"
    using registry_setActiveEditorProxy_None [of w] by (simp add: registry_def)
  with None show ?thesis by simp
next
  case (Some ep)
  have "editorBindingsByEditorProxy (this (snd (setActiveEditorProxy (Some ep) w))) =
      editorBindingsByEditorProxy (this (snd (findOrCreateEditorBinding ep w)))"
    using registry_setActiveEditorProxy_Some [of ep w] by (simp add: registry_def)
  with Some show ?thesis by (simp add: findOrCreateEditorBinding_dom)
qed

lemma setActiveEditorProxyCalls_inv:
  "registryInv w \<Longrightarrow>
   registryInv (setActiveEditorProxyCalls eps w) \<and>
   dom (editorBindingsByEditorProxy (this (setActiveEditorProxyCalls eps w))) =
     dom (editorBindingsByEditorProxy (this w)) \<union> {ep. Some ep \<in> set eps}"
proof (induction eps arbitrary: w)
  case Nil
  then show ?case by simp
next
  case (Cons x eps)
  from Cons.IH [OF registryInv_setActiveEditorProxy [OF Cons.prems, of x]]
  show ?case
    by (auto simp: dom_setActiveEditorProxy)
qed

lemma registryInv_newWorld: "registryInv (newWorld pid ps act)"
  by (simp add: registryInv_def newWorld_def constructor_def)

lemma placeItem_this: "this (snd (placeItem item w)) = this w"
  by (simp add: placeItem_def paneAddItem_def paneRemoveItem_def workspaceOpen_def
      addEffect_def Let_def split: option.splits)

lemma trackItem_tracks:
  assumes "newActivePaneItem (this w) = Some item"
  shows "fst (trackItem w) = Inr ()"
    and "activePaneItem (this (snd (trackItem w))) = Some item"
    and "newActivePaneItem (this (snd (trackItem w))) = None"
proof -
  let ?w3 = "w\<lparr>this := (this w)\<lparr>activePaneItem := newActivePaneItem (this w)\<rparr>\<rparr>"
  have a: "activePaneItem (this (disposeDestroySubscription ?w3)) = Some item"
    using assms by (simp add: disposeDestroySubscription_this)
  then show "fst (trackItem w) = Inr ()"
    and "activePaneItem (this (snd (trackItem w))) = Some item"
    and "newActivePaneItem (this (snd (trackItem w))) = None"
    by (simp_all add: trackItem_def Let_def onDidDestroy_def)
qed

lemma getActivePaneItem_replaceActivePaneItem:
  "getActivePaneItem (snd (replaceActivePaneItem item w)) = Some item"
proof -
  let ?w1 = "w\<lparr>this := (this w)\<lparr>newActivePaneItem := Some item\<rparr>\<rparr>"
  obtain r w2 where p: "placeItem item ?w1 = (r, w2)"
    by (cases "placeItem item ?w1")
  then have n: "newActivePaneItem (this w2) = Some item"
    using placeItem_this [of item ?w1] by simp
  show ?thesis
  proof (cases r)
    case (Inl e)
    with p n show ?thesis
      by (simp add: replaceActivePaneItem_stages getActivePaneItem_def)
  next
    case (Inr u)
    with p trackItem_tracks [OF n] show ?thesis
      by (simp add: replaceActivePaneItem_stages getActivePaneItem_def)
  qed
qed

lemma andThen_this:
  assumes "\<And>a w'. this (snd (f a w')) = this w'"
  shows "this (snd (andThen r f)) = this (snd r)"
  using assms by (cases r; cases "fst r") auto

text \<open>
  C2. The two registries are maps, so a proxy has at most one binding in them at any
  time. After any sequence of \<open>setActiveEditorProxy\<close> calls on a new binding, the keys of
  \<open>editorBindingsByEditorProxy\<close> are exactly the editor proxies activated and the keys of
  \<open>bufferBindingsByBufferProxy\<close> exactly their buffer proxies, and the number of
  \<open>EditorBinding\<close>s and of \<open>TextEditor\<close>s ever constructed is the number of distinct
  editor proxies, the number of \<open>BufferBinding\<close>s and of \<open>TextBuffer\<close>s the number of
  distinct buffer proxies: nothing is constructed twice for one proxy. Activating an
  editor proxy that is in the map, in any world, leaves both maps as they are,
  constructs nothing, makes the registered binding the active one and hands its editor
  to \<open>replaceActivePaneItem\<close>.
\<close>

theorem setActiveEditorProxy_reuses_bindings:
  "dom (editorBindingsByEditorProxy (this (setActiveEditorProxyCalls eps (newWorld pid ps act)))) =
     {ep. Some ep \<in> set eps} \<and>
   dom (bufferBindingsByBufferProxy (this (setActiveEditorProxyCalls eps (newWorld pid ps act)))) =
     bufferProxy ` {ep. Some ep \<in> set eps} \<and>
   length (filter isNewEditorBinding (effects (setActiveEditorProxyCalls eps (newWorld pid ps act)))) =
     card {ep. Some ep \<in> set eps} \<and>
   length (filter isNewTextEditor (effects (setActiveEditorProxyCalls eps (newWorld pid ps act)))) =
     card {ep. Some ep \<in> set eps} \<and>
   length (filter isNewBufferBinding (effects (setActiveEditorProxyCalls eps (newWorld pid ps act)))) =
     card (bufferProxy ` {ep. Some ep \<in> set eps}) \<and>
   length (filter isNewTextBuffer (effects (setActiveEditorProxyCalls eps (newWorld pid ps act)))) =
     card (bufferProxy ` {ep. Some ep \<in> set eps}) \<and>
   (\<forall>eb. editorBindingsByEditorProxy (this w) ep = Some eb \<longrightarrow>
      editorBindingsByEditorProxy (this (snd (setActiveEditorProxy (Some ep) w))) =
        editorBindingsByEditorProxy (this w) \<and>
      bufferBindingsByBufferProxy (this (snd (setActiveEditorProxy (Some ep) w))) =
        bufferBindingsByBufferProxy (this w) \<and>
      nextTextBuffer (snd (setActiveEditorProxy (Some ep) w)) = nextTextBuffer w \<and>
      nextTextEditor (snd (setActiveEditorProxy (Some ep) w)) = nextTextEditor w \<and>
      filter isConstruction (effects (snd (setActiveEditorProxy (Some ep) w))) =
        filter isConstruction (effects w) \<and>
      activeEditorBinding (this (snd (setActiveEditorProxy (Some ep) w))) = Some eb \<and>
      getActivePaneItem (snd (setActiveEditorProxy (Some ep) w)) = Some (EditorItem (editor eb)))"
proof -
  let ?w = "setActiveEditorProxyCalls eps (newWorld pid ps act)"
  have "dom (editorBindingsByEditorProxy (this (newWorld pid ps act))) = {}"
    by (simp add: newWorld_def constructor_def)
  with setActiveEditorProxyCalls_inv [OF registryInv_newWorld, of eps pid ps act]
  have inv: "registryInv ?w"
    and d: "dom (editorBindingsByEditorProxy (this ?w)) = {ep. Some ep \<in> set eps}"
    by simp_all
  from inv d have reached:
    "dom (bufferBindingsByBufferProxy (this ?w)) = bufferProxy ` {ep. Some ep \<in> set eps}"
    "length (filter isNewEditorBinding (effects ?w)) = card {ep. Some ep \<in> set eps}"
    "length (filter isNewTextEditor (effects ?w)) = card {ep. Some ep \<in> set eps}"
    "length (filter isNewBufferBinding (effects ?w)) = card (bufferProxy ` {ep. Some ep \<in> set eps})"
    "length (filter isNewTextBuffer (effects ?w)) = card (bufferProxy ` {ep. Some ep \<in> set eps})"
    by (simp_all add: registryInv_def)
  have reuse: "editorBindingsByEditorProxy (this (snd (setActiveEditorProxy (Some ep) w))) =
        editorBindingsByEditorProxy (this w) \<and>
      bufferBindingsByBufferProxy (this (snd (setActiveEditorProxy (Some ep) w))) =
        bufferBindingsByBufferProxy (this w) \<and>
      nextTextBuffer (snd (setActiveEditorProxy (Some ep) w)) = nextTextBuffer w \<and>
      nextTextEditor (snd (setActiveEditorProxy (Some ep) w)) = nextTextEditor w \<and>
      filter isConstruction (effects (snd (setActiveEditorProxy (Some ep) w))) =
        filter isConstruction (effects w) \<and>
      activeEditorBinding (this (snd (setActiveEditorProxy (Some ep) w))) = Some eb \<and>
      getActivePaneItem (snd (setActiveEditorProxy (Some ep) w)) = Some (EditorItem (editor eb))"
    if found: "editorBindingsByEditorProxy (this w) ep = Some eb" for eb
  proof -
    let ?w2 = "w\<lparr>this := (this w)\<lparr>activeEditorBinding := Some eb\<rparr>\<rparr>"
    have "registry (snd (setActiveEditorProxy (Some ep) w)) = registry ?w2"
      using registry_setActiveEditorProxy_Some [of ep w]
      by (simp add: findOrCreateEditorBinding_found [OF found])
    then have r: "editorBindingsByEditorProxy (this (snd (setActiveEditorProxy (Some ep) w))) =
        editorBindingsByEditorProxy (this w) \<and>
      bufferBindingsByBufferProxy (this (snd (setActiveEditorProxy (Some ep) w))) =
        bufferBindingsByBufferProxy (this w) \<and>
      nextTextBuffer (snd (setActiveEditorProxy (Some ep) w)) = nextTextBuffer w \<and>
      nextTextEditor (snd (setActiveEditorProxy (Some ep) w)) = nextTextEditor w \<and>
      filter isConstruction (effects (snd (setActiveEditorProxy (Some ep) w))) =
        filter isConstruction (effects w) \<and>
      activeEditorBinding (this (snd (setActiveEditorProxy (Some ep) w))) = Some eb"
      by (simp add: registry_def)
    have s: "setActiveEditorProxy (Some ep) w =
        andThen (replaceActivePaneItem (EditorItem (editor eb)) ?w2)
          (\<lambda>u w3. (Inr (), addEffect (AutoscrollToLastHostSelection eb) w3))"
      by (simp add: setActiveEditorProxy_def findOrCreateEditorBinding_found [OF found])
    have "this (snd (setActiveEditorProxy (Some ep) w)) =
        this (snd (replaceActivePaneItem (EditorItem (editor eb)) ?w2))"
      unfolding s by (rule andThen_this) (simp add: addEffect_def)
    then have "getActivePaneItem (snd (setActiveEditorProxy (Some ep) w)) =
        getActivePaneItem (snd (replaceActivePaneItem (EditorItem (editor eb)) ?w2))"
      by (simp add: getActivePaneItem_def split: option.splits)
    with r show ?thesis
      by (simp add: getActivePaneItem_replaceActivePaneItem)
  qed
  from d reached reuse show ?thesis
    by blast
qed

theorem setActiveEditorProxy_reuses_bindings_witness:
  "editorBindingsByEditorProxy
     (this (setActiveEditorProxyCalls
        [Some (EditorProxy 1 7), Some (EditorProxy 2 7), None, Some (EditorProxy 1 7)]
        (newWorld ''p'' [[]] 0)))
     (EditorProxy 1 7) = Some \<lparr>editor = TextEditor 0 (TextBuffer 0), isHost = False\<rparr> \<and>
   filter isConstruction (effects (snd (setActiveEditorProxy (Some (EditorProxy 1 7))
     (setActiveEditorProxyCalls
        [Some (EditorProxy 1 7), Some (EditorProxy 2 7), None, Some (EditorProxy 1 7)]
        (newWorld ''p'' [[]] 0))))) =
     [NewTextBuffer (TextBuffer 0), NewBufferBinding \<lparr>buffer = TextBuffer 0\<rparr>,
      NewTextEditor (TextEditor 0 (TextBuffer 0)),
      NewEditorBinding \<lparr>editor = TextEditor 0 (TextBuffer 0), isHost = False\<rparr>,
      NewTextEditor (TextEditor 1 (TextBuffer 0)),
      NewEditorBinding \<lparr>editor = TextEditor 1 (TextBuffer 0), isHost = False\<rparr>] \<and>
   panes (setActiveEditorProxyCalls
        [Some (EditorProxy 1 7), Some (EditorProxy 2 7), None, Some (EditorProxy 1 7)]
        (newWorld ''p'' [[]] 0)) = [[EditorItem (TextEditor 0 (TextBuffer 0))]]"
proof -
  let ?W = "setActiveEditorProxyCalls
        [Some (EditorProxy 1 7), Some (EditorProxy 2 7), None, Some (EditorProxy 1 7)]
        (newWorld ''p'' [[]] 0)"
  have found: "editorBindingsByEditorProxy (this ?W) (EditorProxy 1 7) =
      Some \<lparr>editor = TextEditor 0 (TextBuffer 0), isHost = False\<rparr>"
    by (simp add: method_defs)
  have cs: "filter isConstruction (effects ?W) =
     [NewTextBuffer (TextBuffer 0), NewBufferBinding \<lparr>buffer = TextBuffer 0\<rparr>,
      NewTextEditor (TextEditor 0 (TextBuffer 0)),
      NewEditorBinding \<lparr>editor = TextEditor 0 (TextBuffer 0), isHost = False\<rparr>,
      NewTextEditor (TextEditor 1 (TextBuffer 0)),
      NewEditorBinding \<lparr>editor = TextEditor 1 (TextBuffer 0), isHost = False\<rparr>]"
    by (simp add: method_defs isConstruction_def)
  have ps: "panes ?W = [[EditorItem (TextEditor 0 (TextBuffer 0))]]"
    by (simp add: method_defs)
  from setActiveEditorProxy_reuses_bindings [of "[]" "''p''" "[[]]" 0 ?W "EditorProxy 1 7"]
    found cs ps
  show ?thesis
    by (simp del: setActiveEditorProxyCalls.simps)
qed

subsection \<open>Replacing the active pane item\<close>

lemma paneForItem_Some:
  "paneForItem ps item = Some k \<Longrightarrow> k < length ps \<and> item \<in> set (ps ! k)"
proof (induction ps arbitrary: k)
  case Nil
  then show ?case by simp
next
  case (Cons p ps)
  show ?case
  proof (cases "item \<in> set p")
    case True
    with Cons.prems show ?thesis by simp
  next
    case False
    with Cons.prems obtain j where "paneForItem ps item = Some j" and "k = Suc j"
      by auto
    with Cons.IH [of j] show ?thesis by simp
  qed
qed

lemma paneForItem_None: "paneForItem ps item = None \<Longrightarrow> item \<notin> set (concat ps)"
  by (induction ps) (auto split: if_splits)

lemma indexOf_in:
  "x \<in> set xs \<Longrightarrow>
   indexOf xs x < length xs \<and> xs ! indexOf xs x = x \<and> x \<notin> set (take (indexOf xs x) xs)"
  by (induction xs) (auto simp: indexOf_def)

lemma swap_in_place:
  assumes "old \<in> set xs" and "item \<notin> set xs"
  shows "remove1 old (take (indexOf xs old) xs @ [item] @ drop (indexOf xs old) xs) =
           xs[indexOf xs old := item]"
proof -
  let ?i = "indexOf xs old"
  from indexOf_in [OF assms(1)] have i: "?i < length xs" "xs ! ?i = old"
    "old \<notin> set (take ?i xs)" by simp_all
  from assms have ne: "item \<noteq> old" by auto
  have d: "drop ?i xs = old # drop (Suc ?i) xs"
    using i(1) i(2) by (simp add: Cons_nth_drop_Suc [symmetric])
  have "remove1 old (take ?i xs @ [item] @ drop ?i xs) =
      take ?i xs @ remove1 old (item # drop ?i xs)"
    using i(3) by (simp add: remove1_append)
  also have "\<dots> = take ?i xs @ item # drop (Suc ?i) xs"
    using ne d by simp
  also have "\<dots> = xs[?i := item]"
    using i(1) by (simp add: upd_conv_take_nth_drop)
  finally show ?thesis .
qed

lemma placeItem_swap:
  assumes "activePaneItem (this w) = Some old" and "paneForItem (panes w) old = Some k"
    and "item \<notin> set (panes w ! k)"
  shows "placeItem item w =
           (Inr (), w\<lparr>panes := (panes w)[k := (panes w ! k)[indexOf (panes w ! k) old := item]],
                      effects := effects w @
                        [PaneAddItem k item (indexOf (panes w ! k) old), PaneRemoveItem k old]\<rparr>)"
proof -
  from paneForItem_Some [OF assms(2)] have k: "k < length (panes w)"
    and old: "old \<in> set (panes w ! k)" by simp_all
  from swap_in_place [OF old assms(3)] assms k show ?thesis
    by (simp add: placeItem_def paneAddItem_def paneRemoveItem_def addEffect_def Let_def)
qed

lemma placeItem_open:
  assumes "activePaneItem (this w) = None"
  shows "fst (placeItem item w) = Inr ()"
    and "this (snd (placeItem item w)) = this w"
    and "effects (snd (placeItem item w)) = effects w @ [WorkspaceOpen item]"
    and "item \<in> set (concat (panes (snd (placeItem item w))))"
    and "destroyObservers (snd (placeItem item w)) = destroyObservers w"
    and "nextDisposable (snd (placeItem item w)) = nextDisposable w"
proof -
  show "item \<in> set (concat (panes (snd (placeItem item w))))"
  proof (cases "paneForItem (panes w) item")
    case None
    with assms show ?thesis
      by (auto simp: placeItem_def workspaceOpen_def addEffect_def set_update_memI
          intro!: bexI [of _ "(panes w)[activePane w := panes w ! activePane w @ [item]] ! activePane w"])
  next
    case (Some k)
    with assms paneForItem_Some [OF Some] show ?thesis
      by (auto simp: placeItem_def workspaceOpen_def addEffect_def)
  qed
qed (simp_all add: assms placeItem_def workspaceOpen_def addEffect_def split: option.splits)

lemma trackItem_facts:
  assumes "newActivePaneItem (this w) = Some item"
  shows "panes (snd (trackItem w)) = panes w"
    and "effects (snd (trackItem w)) = effects w @
           (case activePaneItemDestroySubscription (this w) of
              Some d \<Rightarrow> [DisposableDispose d] | None \<Rightarrow> [])"
    and "activePaneItemDestroySubscription (this (snd (trackItem w))) = Some (nextDisposable w)"
    and "(nextDisposable w, item) \<in> set (destroyObservers (snd (trackItem w)))"
    and "portal (this (snd (trackItem w))) = portal (this w)"
proof -
  let ?w3 = "w\<lparr>this := (this w)\<lparr>activePaneItem := newActivePaneItem (this w)\<rparr>\<rparr>"
  let ?w4 = "disposeDestroySubscription ?w3"
  have a: "activePaneItem (this ?w4) = Some item"
    using assms by (simp add: disposeDestroySubscription_this)
  have t: "trackItem w =
      (Inr (), ?w4\<lparr>this := (this ?w4)\<lparr>activePaneItemDestroySubscription := Some (nextDisposable ?w4),
                                       newActivePaneItem := None\<rparr>,
                   destroyObservers := destroyObservers ?w4 @ [(nextDisposable ?w4, item)],
                   nextDisposable := Suc (nextDisposable ?w4)\<rparr>)"
    using a by (simp add: trackItem_def Let_def onDidDestroy_def)
  have n: "nextDisposable ?w4 = nextDisposable w" and p: "panes ?w4 = panes w"
    by (simp_all add: disposeDestroySubscription_def disposableDispose_def addEffect_def
        split: option.splits)
  have e: "effects ?w4 = effects w @
           (case activePaneItemDestroySubscription (this w) of
              Some d \<Rightarrow> [DisposableDispose d] | None \<Rightarrow> [])"
    by (simp add: disposeDestroySubscription_effects)
  show "panes (snd (trackItem w)) = panes w"
    by (simp add: t p)
  show "effects (snd (trackItem w)) = effects w @
           (case activePaneItemDestroySubscription (this w) of
              Some d \<Rightarrow> [DisposableDispose d] | None \<Rightarrow> [])"
    by (simp add: t e)
  show "activePaneItemDestroySubscription (this (snd (trackItem w))) = Some (nextDisposable w)"
    by (simp add: t n)
  show "(nextDisposable w, item) \<in> set (destroyObservers (snd (trackItem w)))"
    by (simp add: t n)
  show "portal (this (snd (trackItem w))) = portal (this w)"
    by (simp add: t disposeDestroySubscription_this)
qed

lemma replaceActivePaneItem_returned:
  assumes "fst (replaceActivePaneItem item w) = Inr ()"
  shows "\<exists>w2. placeItem item (w\<lparr>this := (this w)\<lparr>newActivePaneItem := Some item\<rparr>\<rparr>) = (Inr (), w2) \<and>
              newActivePaneItem (this w2) = Some item \<and>
              replaceActivePaneItem item w = trackItem w2"
proof -
  let ?w1 = "w\<lparr>this := (this w)\<lparr>newActivePaneItem := Some item\<rparr>\<rparr>"
  from assms obtain a where a: "fst (placeItem item ?w1) = Inr a"
    and r: "replaceActivePaneItem item w = trackItem (snd (placeItem item ?w1))"
    unfolding replaceActivePaneItem_stages by (auto dest: andThen_ok)
  from a have "placeItem item ?w1 = (Inr (), snd (placeItem item ?w1))"
    by (cases "placeItem item ?w1") simp
  moreover have "newActivePaneItem (this (snd (placeItem item ?w1))) = Some item"
    by (simp add: placeItem_this)
  ultimately show ?thesis using r by blast
qed

lemma itemDestroy_observed:
  assumes "portal (this w) = Some p" and "(d, item) \<in> set (destroyObservers w)"
  shows "\<exists>n>0. fst (itemDestroy item w) = Inr () \<and>
           effects (snd (itemDestroy item w)) =
             effects w @ ItemDestroy item # replicate n (PortalDispose p)"
proof -
  let ?n = "length (filter (\<lambda>ob. snd ob = item) (destroyObservers w))"
  from assms(2) have "filter (\<lambda>ob. snd ob = item) (destroyObservers w) \<noteq> []"
    by (force simp: filter_empty_conv)
  then have "0 < ?n" by simp
  moreover have "fst (itemDestroy item w) = Inr () \<and>
           effects (snd (itemDestroy item w)) =
             effects w @ ItemDestroy item # replicate ?n (PortalDispose p)"
    using assms(1) by (simp add: itemDestroy_def callLeave_eq addEffect_def)
  ultimately show ?thesis by blast
qed

lemma replaceActivePaneItem_no_pane:
  assumes "activePaneItem (this w) = Some old" and "paneForItem (panes w) old = None"
  shows "replaceActivePaneItem item w =
           (Inl TypeError, w\<lparr>this := (this w)\<lparr>newActivePaneItem := Some item\<rparr>\<rparr>)"
  using assms by (simp add: replaceActivePaneItem_stages placeItem_def)

text \<open>
  A call that is resumed before any other call starts is the call run to its end.
\<close>

lemma replaceActivePaneItem_start_resume:
  "replaceActivePaneItem item w =
     andThen (replaceActivePaneItemStart item w)
       (\<lambda>p w'. case p of Finished \<Rightarrow> (Inr (), w') | Suspended \<Rightarrow> replaceActivePaneItemResume w')"
proof -
  let ?w1 = "w\<lparr>this := (this w)\<lparr>newActivePaneItem := Some item\<rparr>\<rparr>"
  obtain r w2 where p: "placeItem item ?w1 = (r, w2)"
    by (cases "placeItem item ?w1")
  obtain r' w3 where t: "trackItem w2 = (r', w3)"
    by (cases "trackItem w2")
  have s: "replaceActivePaneItemStart item w =
      (case activePaneItem (this w) of
         Some old \<Rightarrow>
           andThen (r, w2) (\<lambda>u w2. andThen (trackItem w2) (\<lambda>u' w3. (Inr Finished, w3)))
       | None \<Rightarrow> andThen (r, w2) (\<lambda>u w2. (Inr Suspended, w2)))"
    by (simp add: replaceActivePaneItemStart_def Let_def p split: option.splits)
  have c: "replaceActivePaneItem item w = andThen (r, w2) (\<lambda>u. trackItem)"
    by (simp add: replaceActivePaneItem_stages p)
  show ?thesis
  proof (cases r)
    case (Inl e)
    then show ?thesis
      unfolding s c by (cases "activePaneItem (this w)") simp_all
  next
    case (Inr u)
    with t show ?thesis
      unfolding s c
      by (cases "activePaneItem (this w)"; cases r')
         (simp_all add: replaceActivePaneItemResume_def)
  qed
qed

text \<open>
  Two calls that overlap at the \<open>await\<close>. On a new binding a first call starts with the
  placeholder and is suspended; a second call starts with an editor before the first is
  resumed, and is suspended too, since there is still no active pane item. Both items
  are in the pane. The first call, resumed, takes \<open>this.newActivePaneItem\<close> as it is
  now: it returns with the second call's editor as the active pane item and its
  observer on the editor. The second call, resumed, finds \<open>this.newActivePaneItem\<close> reset
  to \<open>null\<close>: it stores \<open>null\<close> as the active pane item, disposes the subscription, and
  raises a \<open>TypeError\<close> at \<open>this.activePaneItem.onDidDestroy\<close>. No item is tracked and no
  destroy observer is left.
\<close>

lemma replaceActivePaneItem_overlapping_calls:
  "fst (replaceActivePaneItemStart EmptyPortalPaneItem (newWorld ''p'' [[]] 0)) = Inr Suspended \<and>
   fst (replaceActivePaneItemStart (EditorItem (TextEditor 0 (TextBuffer 0)))
          (snd (replaceActivePaneItemStart EmptyPortalPaneItem (newWorld ''p'' [[]] 0)))) =
     Inr Suspended \<and>
   fst (replaceActivePaneItemResume
          (snd (replaceActivePaneItemStart (EditorItem (TextEditor 0 (TextBuffer 0)))
             (snd (replaceActivePaneItemStart EmptyPortalPaneItem (newWorld ''p'' [[]] 0)))))) =
     Inr () \<and>
   activePaneItem (this (snd (replaceActivePaneItemResume
          (snd (replaceActivePaneItemStart (EditorItem (TextEditor 0 (TextBuffer 0)))
             (snd (replaceActivePaneItemStart EmptyPortalPaneItem (newWorld ''p'' [[]] 0)))))))) =
     Some (EditorItem (TextEditor 0 (TextBuffer 0))) \<and>
   fst (replaceActivePaneItemResume (snd (replaceActivePaneItemResume
          (snd (replaceActivePaneItemStart (EditorItem (TextEditor 0 (TextBuffer 0)))
             (snd (replaceActivePaneItemStart EmptyPortalPaneItem (newWorld ''p'' [[]] 0)))))))) =
     Inl TypeError \<and>
   activePaneItem (this (snd (replaceActivePaneItemResume (snd (replaceActivePaneItemResume
          (snd (replaceActivePaneItemStart (EditorItem (TextEditor 0 (TextBuffer 0)))
             (snd (replaceActivePaneItemStart EmptyPortalPaneItem (newWorld ''p'' [[]] 0)))))))))) =
     None \<and>
   destroyObservers (snd (replaceActivePaneItemResume (snd (replaceActivePaneItemResume
          (snd (replaceActivePaneItemStart (EditorItem (TextEditor 0 (TextBuffer 0)))
             (snd (replaceActivePaneItemStart EmptyPortalPaneItem (newWorld ''p'' [[]] 0))))))))) =
     [] \<and>
   panes (snd (replaceActivePaneItemResume (snd (replaceActivePaneItemResume
          (snd (replaceActivePaneItemStart (EditorItem (TextEditor 0 (TextBuffer 0)))
             (snd (replaceActivePaneItemStart EmptyPortalPaneItem (newWorld ''p'' [[]] 0))))))))) =
     [[EmptyPortalPaneItem, EditorItem (TextEditor 0 (TextBuffer 0))]]"
  by (simp add: replaceActivePaneItemStart_def replaceActivePaneItemResume_def placeItem_def
      trackItem_def method_defs)


text \<open>
  What a call of \<open>replaceActivePaneItem(item)\<close> does when it runs to its end with no
  other call started in between. With an active pane item \<open>old\<close> that sits
  in pane \<open>k\<close>, and a new item that pane does not hold yet: the call returns, pane \<open>k\<close>
  has the new item at the index the old one had and the old one is gone from there
  (every other position and pane is as before), by the two calls
  \<open>pane.addItem(item, {index})\<close> and \<open>pane.removeItem(old)\<close>. With no active pane item:
  the call returns, the one workspace call is \<open>workspace.open(item)\<close>, and the item is in
  the workspace. Whenever the call returns, the item is the tracked active pane item,
  the field \<open>activePaneItemDestroySubscription\<close> holds a new disposable whose observer
  sits on the item, and destroying the item then runs \<open>leave()\<close>: with a portal joined,
  \<open>destroy()\<close> on the item returns and calls the portal's \<open>dispose()\<close>.
\<close>

theorem replaceActivePaneItem_swaps_or_opens:
  "(\<forall>old k. activePaneItem (this w) = Some old \<and> paneForItem (panes w) old = Some k \<and>
       item \<notin> set (panes w ! k) \<longrightarrow>
       fst (replaceActivePaneItem item w) = Inr () \<and>
       panes (snd (replaceActivePaneItem item w)) =
         (panes w)[k := (panes w ! k)[indexOf (panes w ! k) old := item]] \<and>
       effects (snd (replaceActivePaneItem item w)) =
         effects w @ [PaneAddItem k item (indexOf (panes w ! k) old), PaneRemoveItem k old] @
         (case activePaneItemDestroySubscription (this w) of
            Some d \<Rightarrow> [DisposableDispose d] | None \<Rightarrow> [])) \<and>
   (activePaneItem (this w) = None \<longrightarrow>
       fst (replaceActivePaneItem item w) = Inr () \<and>
       item \<in> set (concat (panes (snd (replaceActivePaneItem item w)))) \<and>
       effects (snd (replaceActivePaneItem item w)) =
         effects w @ [WorkspaceOpen item] @
         (case activePaneItemDestroySubscription (this w) of
            Some d \<Rightarrow> [DisposableDispose d] | None \<Rightarrow> [])) \<and>
   (fst (replaceActivePaneItem item w) = Inr () \<longrightarrow>
       activePaneItem (this (snd (replaceActivePaneItem item w))) = Some item \<and>
       newActivePaneItem (this (snd (replaceActivePaneItem item w))) = None \<and>
       (\<exists>d. activePaneItemDestroySubscription (this (snd (replaceActivePaneItem item w))) = Some d \<and>
            (d, item) \<in> set (destroyObservers (snd (replaceActivePaneItem item w)))) \<and>
       (\<forall>p. portal (this w) = Some p \<longrightarrow>
          (\<exists>n>0. fst (itemDestroy item (snd (replaceActivePaneItem item w))) = Inr () \<and>
             effects (snd (itemDestroy item (snd (replaceActivePaneItem item w)))) =
               effects (snd (replaceActivePaneItem item w)) @
               ItemDestroy item # replicate n (PortalDispose p))))"
proof (intro conjI allI impI)
  let ?w1 = "w\<lparr>this := (this w)\<lparr>newActivePaneItem := Some item\<rparr>\<rparr>"
  {
    fix old k
    assume h: "activePaneItem (this w) = Some old \<and> paneForItem (panes w) old = Some k \<and>
       item \<notin> set (panes w ! k)"
    then have "activePaneItem (this ?w1) = Some old" "paneForItem (panes ?w1) old = Some k"
      "item \<notin> set (panes ?w1 ! k)" by simp_all
    from placeItem_swap [OF this]
    have p: "placeItem item ?w1 =
        (Inr (), ?w1\<lparr>panes := (panes w)[k := (panes w ! k)[indexOf (panes w ! k) old := item]],
                    effects := effects w @
                      [PaneAddItem k item (indexOf (panes w ! k) old), PaneRemoveItem k old]\<rparr>)"
      (is "_ = (_, ?w2)")
      by simp
    have n: "newActivePaneItem (this ?w2) = Some item" by simp
    have r: "replaceActivePaneItem item w = trackItem ?w2"
      by (simp add: replaceActivePaneItem_stages p)
    show "fst (replaceActivePaneItem item w) = Inr ()"
      by (simp add: r trackItem_tracks [OF n])
    show "panes (snd (replaceActivePaneItem item w)) =
         (panes w)[k := (panes w ! k)[indexOf (panes w ! k) old := item]]"
      by (simp add: r trackItem_facts [OF n])
    show "effects (snd (replaceActivePaneItem item w)) =
         effects w @ [PaneAddItem k item (indexOf (panes w ! k) old), PaneRemoveItem k old] @
         (case activePaneItemDestroySubscription (this w) of
            Some d \<Rightarrow> [DisposableDispose d] | None \<Rightarrow> [])"
      by (simp add: r trackItem_facts [OF n])
  }
  {
    assume h: "activePaneItem (this w) = None"
    then have a: "activePaneItem (this ?w1) = None" by simp
    let ?w2 = "snd (placeItem item ?w1)"
    have p: "placeItem item ?w1 = (Inr (), ?w2)"
      using placeItem_open(1) [OF a, of item] by (cases "placeItem item ?w1") simp
    have n: "newActivePaneItem (this ?w2) = Some item"
      by (simp add: placeItem_this)
    have r: "replaceActivePaneItem item w = trackItem ?w2"
      unfolding replaceActivePaneItem_stages by (subst p) simp
    have s: "activePaneItemDestroySubscription (this ?w2) =
        activePaneItemDestroySubscription (this w)"
      by (simp add: placeItem_this)
    show "fst (replaceActivePaneItem item w) = Inr ()"
      by (simp add: r trackItem_tracks [OF n])
    show "item \<in> set (concat (panes (snd (replaceActivePaneItem item w))))"
      using placeItem_open(4) [OF a, of item] by (simp add: r trackItem_facts(1) [OF n])
    show "effects (snd (replaceActivePaneItem item w)) =
         effects w @ [WorkspaceOpen item] @
         (case activePaneItemDestroySubscription (this w) of
            Some d \<Rightarrow> [DisposableDispose d] | None \<Rightarrow> [])"
      using placeItem_open(3) [OF a, of item] by (simp add: r trackItem_facts(2) [OF n] s)
  }
  {
    assume ok: "fst (replaceActivePaneItem item w) = Inr ()"
    from replaceActivePaneItem_returned [OF this] obtain w2
      where p: "placeItem item ?w1 = (Inr (), w2)"
        and n: "newActivePaneItem (this w2) = Some item"
        and r: "replaceActivePaneItem item w = trackItem w2"
      by blast
    have w2: "this w2 = this ?w1" "nextDisposable w2 = nextDisposable w2"
      using placeItem_this [of item ?w1] p by simp_all
    show "activePaneItem (this (snd (replaceActivePaneItem item w))) = Some item"
      by (simp add: r trackItem_tracks [OF n])
    show "newActivePaneItem (this (snd (replaceActivePaneItem item w))) = None"
      by (simp add: r trackItem_tracks [OF n])
    show "\<exists>d. activePaneItemDestroySubscription (this (snd (replaceActivePaneItem item w))) = Some d \<and>
            (d, item) \<in> set (destroyObservers (snd (replaceActivePaneItem item w)))"
      using trackItem_facts(3,4) [OF n] by (simp add: r)
    {
      fix p
      assume "portal (this w) = Some p"
      then have "portal (this (snd (replaceActivePaneItem item w))) = Some p"
        by (simp add: r trackItem_facts(5) [OF n] w2)
      from itemDestroy_observed [OF this trackItem_facts(4) [OF n, folded r]]
      show "\<exists>n>0. fst (itemDestroy item (snd (replaceActivePaneItem item w))) = Inr () \<and>
             effects (snd (itemDestroy item (snd (replaceActivePaneItem item w)))) =
               effects (snd (replaceActivePaneItem item w)) @
               ItemDestroy item # replicate n (PortalDispose p)" .
    }
  }
qed

theorem replaceActivePaneItem_swaps_or_opens_witness:
  "activePaneItem (this ((newWorld ''p'' [[LocalItem 1, EmptyPortalPaneItem, LocalItem 2]] 0)
      \<lparr>this := (constructor ''p'')\<lparr>activePaneItem := Some EmptyPortalPaneItem,
                                   portal := Some (Portal [])\<rparr>\<rparr>)) = Some EmptyPortalPaneItem \<and>
   paneForItem (panes ((newWorld ''p'' [[LocalItem 1, EmptyPortalPaneItem, LocalItem 2]] 0)
      \<lparr>this := (constructor ''p'')\<lparr>activePaneItem := Some EmptyPortalPaneItem,
                                   portal := Some (Portal [])\<rparr>\<rparr>)) EmptyPortalPaneItem = Some 0 \<and>
   panes (snd (replaceActivePaneItem (EditorItem (TextEditor 0 (TextBuffer 0)))
     ((newWorld ''p'' [[LocalItem 1, EmptyPortalPaneItem, LocalItem 2]] 0)
      \<lparr>this := (constructor ''p'')\<lparr>activePaneItem := Some EmptyPortalPaneItem,
                                   portal := Some (Portal [])\<rparr>\<rparr>))) =
     [[LocalItem 1, EditorItem (TextEditor 0 (TextBuffer 0)), LocalItem 2]] \<and>
   effects (snd (itemDestroy (EditorItem (TextEditor 0 (TextBuffer 0)))
     (snd (replaceActivePaneItem (EditorItem (TextEditor 0 (TextBuffer 0)))
       ((newWorld ''p'' [[LocalItem 1, EmptyPortalPaneItem, LocalItem 2]] 0)
        \<lparr>this := (constructor ''p'')\<lparr>activePaneItem := Some EmptyPortalPaneItem,
                                     portal := Some (Portal [])\<rparr>\<rparr>))))) =
     [PaneAddItem 0 (EditorItem (TextEditor 0 (TextBuffer 0))) 1,
      PaneRemoveItem 0 EmptyPortalPaneItem,
      ItemDestroy (EditorItem (TextEditor 0 (TextBuffer 0))),
      PortalDispose (Portal [])] \<and>
   activePaneItem (this (snd (replaceActivePaneItem (EditorItem (TextEditor 0 (TextBuffer 0)))
     ((newWorld ''p'' [[LocalItem 1, EmptyPortalPaneItem, LocalItem 2]] 0)
      \<lparr>this := (constructor ''p'')\<lparr>activePaneItem := Some EmptyPortalPaneItem,
                                   portal := Some (Portal [])\<rparr>\<rparr>)))) =
     Some (EditorItem (TextEditor 0 (TextBuffer 0))) \<and>
   activePaneItem (this (newWorld ''p'' [[LocalItem 1]] 0)) = None \<and>
   panes (snd (replaceActivePaneItem EmptyPortalPaneItem (newWorld ''p'' [[LocalItem 1]] 0))) =
     [[LocalItem 1, EmptyPortalPaneItem]] \<and>
   effects (snd (replaceActivePaneItem EmptyPortalPaneItem (newWorld ''p'' [[LocalItem 1]] 0))) =
     [WorkspaceOpen EmptyPortalPaneItem]"
proof -
  let ?wa = "(newWorld ''p'' [[LocalItem 1, EmptyPortalPaneItem, LocalItem 2]] 0)
      \<lparr>this := (constructor ''p'')\<lparr>activePaneItem := Some EmptyPortalPaneItem,
                                   portal := Some (Portal [])\<rparr>\<rparr>"
  let ?ed = "EditorItem (TextEditor 0 (TextBuffer 0))"
  let ?wb = "newWorld ''p'' [[LocalItem 1]] 0"
  have a: "activePaneItem (this ?wa) = Some EmptyPortalPaneItem"
    "paneForItem (panes ?wa) EmptyPortalPaneItem = Some 0"
    "?ed \<notin> set (panes ?wa ! 0)"
    "portal (this ?wa) = Some (Portal [])"
    "effects ?wa = []"
    "panes ?wa = [[LocalItem 1, EmptyPortalPaneItem, LocalItem 2]]"
    "activePaneItemDestroySubscription (this ?wa) = None"
    by (simp_all add: newWorld_def constructor_def)
  have b: "activePaneItem (this ?wb) = None" "effects ?wb = []"
    "activePaneItemDestroySubscription (this ?wb) = None"
    by (simp_all add: newWorld_def constructor_def)
  have pb: "panes (snd (replaceActivePaneItem EmptyPortalPaneItem ?wb)) =
     [[LocalItem 1, EmptyPortalPaneItem]]"
    by (simp add: method_defs)
  have i: "indexOf [LocalItem 1, EmptyPortalPaneItem, LocalItem 2] EmptyPortalPaneItem = 1"
    by (simp add: indexOf_def)
  have ok: "fst (replaceActivePaneItem ?ed ?wa) = Inr ()"
    using replaceActivePaneItem_swaps_or_opens [of ?wa ?ed] a(1,2,3) by blast
  from replaceActivePaneItem_swaps_or_opens [of ?wa ?ed] a ok i
  have "panes (snd (replaceActivePaneItem ?ed ?wa)) = [[LocalItem 1, ?ed, LocalItem 2]]"
    by simp
  moreover have "effects (snd (itemDestroy ?ed (snd (replaceActivePaneItem ?ed ?wa)))) =
     [PaneAddItem 0 ?ed 1, PaneRemoveItem 0 EmptyPortalPaneItem, ItemDestroy ?ed,
      PortalDispose (Portal [])]"
    by (simp add: method_defs)
  moreover from replaceActivePaneItem_swaps_or_opens [of ?wa ?ed] ok
  have "activePaneItem (this (snd (replaceActivePaneItem ?ed ?wa))) = Some ?ed"
    by blast
  moreover from replaceActivePaneItem_swaps_or_opens [of ?wb EmptyPortalPaneItem] b
  have "effects (snd (replaceActivePaneItem EmptyPortalPaneItem ?wb)) =
     [WorkspaceOpen EmptyPortalPaneItem]"
    by simp
  ultimately show ?thesis using a(1,2) b(1) pb by simp
qed

text \<open>
  C1, at the input where the code departs from it. A new binding in a workspace of one
  empty pane receives \<open>setActiveEditorProxy(null)\<close> twice. The first call opens the
  placeholder. The second finds the placeholder as the active pane item and runs
  \<open>pane.addItem(placeholder, {index})\<close>, which changes nothing, and then
  \<open>pane.removeItem(placeholder)\<close>: the call returns, the pane is empty, and the binding
  still tracks the placeholder as its active pane item. A third call, with an editor
  proxy, finds no pane for the tracked item and raises a \<open>TypeError\<close> before it has
  shown the editor; the tracked item stays the placeholder. The same happens when one
  editor proxy is activated twice in a row.
\<close>

theorem setActiveEditorProxy_same_item_twice:
  "panes (setActiveEditorProxyCalls [None] (newWorld ''portal-id'' [[]] 0)) =
     [[EmptyPortalPaneItem]] \<and>
   fst (setActiveEditorProxy None
          (setActiveEditorProxyCalls [None] (newWorld ''portal-id'' [[]] 0))) = Inr () \<and>
   panes (setActiveEditorProxyCalls [None, None] (newWorld ''portal-id'' [[]] 0)) = [[]] \<and>
   activePaneItem (this (setActiveEditorProxyCalls [None, None] (newWorld ''portal-id'' [[]] 0))) =
     Some EmptyPortalPaneItem \<and>
   fst (setActiveEditorProxy (Some (EditorProxy 1 1))
          (setActiveEditorProxyCalls [None, None] (newWorld ''portal-id'' [[]] 0))) =
     Inl TypeError \<and>
   panes (setActiveEditorProxyCalls [None, None, Some (EditorProxy 1 1)]
            (newWorld ''portal-id'' [[]] 0)) = [[]] \<and>
   activePaneItem (this (setActiveEditorProxyCalls [None, None, Some (EditorProxy 1 1)]
            (newWorld ''portal-id'' [[]] 0))) = Some EmptyPortalPaneItem \<and>
   panes (setActiveEditorProxyCalls [Some (EditorProxy 1 1)] (newWorld ''portal-id'' [[]] 0)) =
     [[EditorItem (TextEditor 0 (TextBuffer 0))]] \<and>
   panes (setActiveEditorProxyCalls [Some (EditorProxy 1 1), Some (EditorProxy 1 1)]
            (newWorld ''portal-id'' [[]] 0)) = [[]]"
  by (simp add: method_defs)


section \<open>Properties of the portal status bar indicator\<close>

lemma indicatorInv_new: "indicatorInv newIndicator"
  by (simp add: indicatorInv_def indicatorStates_def newIndicator_def)

lemma step_Settle_none: "suspended i = [] \<Longrightarrow> step (Settle n s) i = i"
  by simp

lemma step_Settle_single:
  "suspended i = [c] \<Longrightarrow>
   step (Settle n s) i = (if n = 0 then resume c s (i\<lparr>suspended := []\<rparr>) else i)"
  by simp

lemma step_Click_off: "\<not> onclick i \<Longrightarrow> step Click i = i"
  by (simp add: dispatchClick_def)

lemma indicatorInv_step:
  assumes "indicatorInv i"
  shows "indicatorInv (step e i)"
proof -
  from assms consider
      (fresh) "onclick i" "suspended i = []" "calls i = []"
    | (idle) "\<not> onclick i" "suspended i = []"
    | (manager) "\<not> onclick i" "suspended i = [AwaitGetPortalBindingManager]"
        "calls i = [GetPortalBindingManager]"
    | (provider) "\<not> onclick i" "suspended i = [AwaitGetAuthenticationProvider]"
        "calls i = [GetPortalBindingManager, PortalBindingManagerOnDidChange,
                    GetAuthenticationProvider]"
    | (signIn) "\<not> onclick i" "suspended i = [AwaitSignInUsingSavedToken]"
        "calls i = [GetPortalBindingManager, PortalBindingManagerOnDidChange,
                    GetAuthenticationProvider, SignInUsingSavedToken]"
    by (auto simp: indicatorInv_def indicatorStates_def)
  then show ?thesis
  proof cases
    case fresh
    then show ?thesis
      by (cases e)
         (simp_all add: indicatorInv_def indicatorStates_def dispatchClick_def
            handleInitialClick_def)
  next
    case idle
    with assms show ?thesis
      by (cases e) (simp_all add: step_Click_off step_Settle_none del: step.simps)
  next
    case manager
    show ?thesis
    proof (cases e)
      case Click
      with manager assms show ?thesis by (simp add: step_Click_off del: step.simps)
    next
      case (Settle n s)
      with manager assms show ?thesis
        by (cases s)
           (simp_all add: step_Settle_single indicatorInv_def indicatorStates_def
              del: step.simps)
    qed
  next
    case provider
    show ?thesis
    proof (cases e)
      case Click
      with provider assms show ?thesis by (simp add: step_Click_off del: step.simps)
    next
      case (Settle n s)
      with provider assms show ?thesis
        by (cases s)
           (simp_all add: step_Settle_single indicatorInv_def indicatorStates_def
              del: step.simps)
    qed
  next
    case signIn
    show ?thesis
    proof (cases e)
      case Click
      with signIn assms show ?thesis by (simp add: step_Click_off del: step.simps)
    next
      case (Settle n s)
      with signIn assms show ?thesis
        by (cases s)
           (simp_all add: step_Settle_single indicatorInv_def indicatorStates_def
              dispatchClick_def del: step.simps)
    qed
  qed
qed

lemma indicatorInv_run: "indicatorInv i \<Longrightarrow> indicatorInv (run es i)"
  by (induction es arbitrary: i) (simp_all add: indicatorInv_step del: step.simps)

lemma indicatorInv_counts:
  "indicatorInv i \<Longrightarrow> count_list (calls i) c \<le> Suc 0"
  by (auto simp: indicatorInv_def indicatorStates_def)

lemma resume_onclick: "\<not> onclick i \<Longrightarrow> \<not> onclick (resume c s i)"
  by (cases c; cases s) (simp_all add: dispatchClick_def)

lemma step_onclick: "\<not> onclick i \<Longrightarrow> \<not> onclick (step e i)"
  by (cases e) (simp_all add: dispatchClick_def resume_onclick)

lemma run_onclick: "\<not> onclick i \<Longrightarrow> \<not> onclick (run es i)"
  by (induction es arbitrary: i) (simp_all add: step_onclick del: step.simps)

text \<open>
  C10. The first click takes the handler off the element in the synchronous part of
  \<open>handleInitialClick\<close>, before the first awaited promise settles: right after it the
  \<open>onclick\<close> slot is empty, the only call made is \<open>getPortalBindingManager()\<close>, and that
  one invocation is waiting. The slot stays empty whatever happens next. So over every
  sequence of clicks and settled promises at most one invocation of
  \<open>handleInitialClick\<close> is ever under way, and the lookup of the portal binding manager,
  the setup of the authentication provider (its lookup and the sign-in), the
  construction of the popover component and the registration of the tooltip each
  happen at most once.
\<close>

theorem handleInitialClick_at_most_once:
  "step Click newIndicator =
     newIndicator\<lparr>onclick := False, suspended := [AwaitGetPortalBindingManager],
                  calls := [GetPortalBindingManager]\<rparr> \<and>
   \<not> onclick (run (Click # es) newIndicator) \<and>
   length (suspended (run es newIndicator)) \<le> 1 \<and>
   count_list (calls (run es newIndicator)) GetPortalBindingManager \<le> 1 \<and>
   count_list (calls (run es newIndicator)) PortalBindingManagerOnDidChange \<le> 1 \<and>
   count_list (calls (run es newIndicator)) GetAuthenticationProvider \<le> 1 \<and>
   count_list (calls (run es newIndicator)) SignInUsingSavedToken \<le> 1 \<and>
   count_list (calls (run es newIndicator)) NewPopoverComponent \<le> 1 \<and>
   count_list (calls (run es newIndicator)) TooltipManagerAdd \<le> 1"
proof -
  have first: "step Click newIndicator =
     newIndicator\<lparr>onclick := False, suspended := [AwaitGetPortalBindingManager],
                  calls := [GetPortalBindingManager]\<rparr>"
    by (simp add: dispatchClick_def handleInitialClick_def newIndicator_def)
  have "\<not> onclick (step Click newIndicator)"
    by (simp add: first del: step.simps)
  then have off: "\<not> onclick (run (Click # es) newIndicator)"
    by (simp add: run_onclick del: step.simps)
  have inv: "indicatorInv (run es newIndicator)"
    by (rule indicatorInv_run [OF indicatorInv_new])
  then have "length (suspended (run es newIndicator)) \<le> 1"
    by (auto simp: indicatorInv_def indicatorStates_def)
  with first off indicatorInv_counts [OF inv] show ?thesis
    by (simp del: step.simps run.simps)
qed

theorem handleInitialClick_at_most_once_witness:
  "calls (run [Click, Click, Settle 0 FulfilledObject, Click, Settle 0 FulfilledObject,
               Settle 0 FulfilledObject, Click] newIndicator) =
     [GetPortalBindingManager, PortalBindingManagerOnDidChange, GetAuthenticationProvider,
      SignInUsingSavedToken, NewPopoverComponent, TooltipManagerAdd, ElementClick] \<and>
   count_list (calls (run [Click, Click, Settle 0 FulfilledObject, Click, Settle 0 FulfilledObject,
               Settle 0 FulfilledObject, Click] newIndicator)) GetPortalBindingManager = 1"
  using handleInitialClick_at_most_once
    [of "[Click, Click, Settle 0 FulfilledObject, Click, Settle 0 FulfilledObject,
          Settle 0 FulfilledObject, Click]"]
  by (simp add: dispatchClick_def handleInitialClick_def newIndicator_def)

end
